theory Spec2Isabelle
  imports Main "HOL-Library.Sublist" "HOL-Library.AList"
begin

section \<open>JavaScript values used by the scripts\<close>

text \<open>
  \<^verbatim>\<open>String.prototype.includes\<close>: does \<open>sub\<close> occur in \<open>s\<close> as a contiguous run of
  characters? The search is case sensitive and the empty string occurs in every string.
\<close>

fun str_includes :: "string \<Rightarrow> string \<Rightarrow> bool" where
  "str_includes [] sub = (sub = [])"
| "str_includes (c # cs) sub = (prefix sub (c # cs) \<or> str_includes cs sub)"

text \<open>
  An entry of \<^verbatim>\<open>process.env\<close> is a string or \<^verbatim>\<open>undefined\<close>. Both \<^verbatim>\<open>undefined\<close> and
  the empty string are falsy, so \<^verbatim>\<open>!process.env.X\<close> holds for either and
  \<^verbatim>\<open>process.env.X || d\<close> yields \<open>d\<close> for either.
\<close>

fun truthy :: "string option \<Rightarrow> bool" where
  "truthy None = False"
| "truthy (Some s) = (s \<noteq> [])"

fun or_default :: "string option \<Rightarrow> string \<Rightarrow> string" where
  "or_default None d = d"
| "or_default (Some s) d = (if s = [] then d else s)"

record env =
  OPENSEARCH_ENDPOINT :: "string option"
  AWS_REGION :: "string option"
  AWS_ACCESS_KEY_ID :: "string option"
  AWS_SECRET_ACCESS_KEY :: "string option"
  OPENSEARCH_INDEX :: "string option"
  FIREHOSE_DELIVERY_STREAM_NAME :: "string option"

section \<open>diagnose.js: the connectivity diagnostics\<close>

subsection \<open>What the script talks to\<close>

text \<open>The fields of \<^verbatim>\<open>url.parse(endpoint)\<close> the script reads; each may be \<^verbatim>\<open>null\<close>.\<close>

record parsed_url =
  hostname :: "string option"
  port :: "string option"
  protocol :: "string option"

text \<open>
  \<^verbatim>\<open>parsedUrl.port || (parsedUrl.protocol === 'https:' ? 443 : 80)\<close> is the declared port
  as a string, or one of two numbers.
\<close>

datatype js_port = PortString string | PortNumber nat

definition effective_port :: "parsed_url \<Rightarrow> js_port" where
  "effective_port p =
     (if truthy (port p) then PortString (the (port p))
      else if protocol p = Some ''https:'' then PortNumber 443 else PortNumber 80)"

record request_options =
  opt_hostname :: "string option"
  opt_port :: js_port
  opt_path :: string
  opt_method :: string
  opt_timeout :: nat
  opt_rejectUnauthorized :: bool

text \<open>
  What the request of \<^verbatim>\<open>testBasicConnectivity\<close> can emit: a response with its status
  code, \<^verbatim>\<open>'timeout'\<close>, or \<^verbatim>\<open>'error'\<close> with the message of the error. The request has a
  handler for each, and the handlers stay installed: the first event resolves the
  promise, and every later event still runs its handler. After a timeout the handler
  calls \<^verbatim>\<open>req.destroy()\<close>, and the request then emits an error (socket hang up).
  With the timeout set, the request always emits a first event.
\<close>

datatype request_event = Response nat | Timeout | ConnError string

record client_config =
  cfg_region :: string
  cfg_service :: string
  cfg_accessKeyId :: "string option"
  cfg_secretAccessKey :: "string option"
  cfg_node :: "string option"
  cfg_requestTimeout :: nat
  cfg_rejectUnauthorized :: bool

record cluster_info =
  cluster_name :: string
  version_number :: string

text \<open>
  Everything outside the script: the URL parser, the resolver, the HTTP(S) module, the
  search client and the clock. A raised error is \<open>Inl\<close> of its \<^verbatim>\<open>message\<close>.
  \<open>http_request\<close> yields the first event of the request and the events after it.
  \<open>new_client cfg\<close> is \<open>Some\<close> of the message when \<^verbatim>\<open>new Client(...)\<close> throws, as it
  does for an endpoint the library rejects. \<open>date_now i\<close> is the \<open>i\<close>-th reading of
  \<^verbatim>\<open>Date.now()\<close> in the run. \<^verbatim>\<open>url.parse\<close> and \<^verbatim>\<open>request\<close> are taken to return.
\<close>

record diag_world =
  url_parse :: "string \<Rightarrow> parsed_url"
  dns_resolve4 :: "string option \<Rightarrow> string + string list"
  http_request :: "bool \<Rightarrow> request_options \<Rightarrow> request_event \<times> request_event list"
  new_client :: "client_config \<Rightarrow> string option"
  client_info :: "client_config \<Rightarrow> string + cluster_info"
  indices_exists :: "client_config \<Rightarrow> string \<Rightarrow> string + bool"
  indices_stats :: "client_config \<Rightarrow> string \<Rightarrow> string + nat"
  date_now :: "nat \<Rightarrow> int"

subsection \<open>What a run leaves behind\<close>

datatype heading =
  HBanner | HEnvironment | HEndpoint | HDns | HConnectivity | HClient | HIndex

datatype suggestion =
  CheckSecurityGroups | CheckIamPermissions | CheckDnsVpc | CreateIndex

text \<open>One constructor for each \<^verbatim>\<open>console.log\<close> of the script (colours left out).\<close>

datatype log_line =
  Heading heading
| EnvValue string "string option"
| EnvIsSet string bool
| EndpointRequired
| ShowHost "string option"
| ShowPort js_port
| ShowProtocol "string option"
| DnsSuccess
| ResolvedIPs "string list"
| DnsFailed string
| ConnSuccess nat
| ConnTimeout
| ConnFailed string
| ClientSuccess int
| ShowCluster string
| ShowVersion string
| ClientFailed string
| Suggest suggestion
| IndexExistsLine string
| DocumentCount nat
| IndexMissing string
| IndexTestFailed string

text \<open>
  The events of a run: its console lines and its calls to the outside.
  \<open>HttpRequest\<close> carries whether the \<^verbatim>\<open>https\<close> module was chosen.
\<close>

datatype event =
  Log log_line
| DnsResolve4 "string option"
| HttpRequest bool request_options
| ClientInfo client_config
| IndicesExists client_config string
| IndicesStats client_config string

text \<open>
  What a run leaves behind. \<open>trace\<close> holds the events in the order that the awaits of
  the script fix. \<open>late\<close> holds, in their own order, the lines that the handlers of the
  transport request print after its promise has resolved; they appear somewhere among
  the later lines of the run, at places the model does not fix.
\<close>

record diag_run =
  trace :: "event list"
  late :: "event list"

subsection \<open>The functions of diagnose.js\<close>

definition env_report :: "env \<Rightarrow> event list" where
  "env_report e =
     [Log (Heading HEnvironment),
      Log (EnvValue ''OPENSEARCH_ENDPOINT''
             (if truthy (OPENSEARCH_ENDPOINT e) then OPENSEARCH_ENDPOINT e else None)),
      Log (EnvValue ''AWS_REGION'' (if truthy (AWS_REGION e) then AWS_REGION e else None)),
      Log (EnvIsSet ''AWS_ACCESS_KEY_ID'' (truthy (AWS_ACCESS_KEY_ID e))),
      Log (EnvIsSet ''AWS_SECRET_ACCESS_KEY'' (truthy (AWS_SECRET_ACCESS_KEY e))),
      Log (EnvValue ''OPENSEARCH_INDEX''
             (if truthy (OPENSEARCH_INDEX e) then OPENSEARCH_INDEX e else None))]"

text \<open>The \<^verbatim>\<open>options\<close> object of \<^verbatim>\<open>testBasicConnectivity\<close>.\<close>

definition connectivity_options :: "parsed_url \<Rightarrow> request_options" where
  "connectivity_options parsedUrl =
     \<lparr>opt_hostname = hostname parsedUrl,
      opt_port = effective_port parsedUrl,
      opt_path = ''/'',
      opt_method = ''GET'',
      opt_timeout = 10000,
      opt_rejectUnauthorized = False\<rparr>"

text \<open>The line that the handler of an event prints.\<close>

fun handler_line :: "request_event \<Rightarrow> log_line" where
  "handler_line (Response st) = ConnSuccess st"
| "handler_line Timeout = ConnTimeout"
| "handler_line (ConnError m) = ConnFailed m"

definition testBasicConnectivity :: "diag_world \<Rightarrow> string \<Rightarrow> diag_run" where
  "testBasicConnectivity w endpoint =
     (let parsedUrl = url_parse w endpoint;
          options = connectivity_options parsedUrl;
          use_https = (protocol parsedUrl = Some ''https:'');
          (first, later) = http_request w use_https options
      in \<lparr>trace = [HttpRequest use_https options, Log (handler_line first)],
          late = map (\<lambda>ev. Log (handler_line ev)) later\<rparr>)"

definition make_client_config :: "env \<Rightarrow> client_config" where
  "make_client_config e =
     \<lparr>cfg_region = or_default (AWS_REGION e) ''us-east-1'',
      cfg_service = ''es'',
      cfg_accessKeyId = AWS_ACCESS_KEY_ID e,
      cfg_secretAccessKey = AWS_SECRET_ACCESS_KEY e,
      cfg_node = OPENSEARCH_ENDPOINT e,
      cfg_requestTimeout = 30000,
      cfg_rejectUnauthorized = False\<rparr>"

text \<open>
  The cascade in the \<^verbatim>\<open>catch\<close> block of \<^verbatim>\<open>testOpenSearchClient\<close>: which suggestion, if
  any, is printed for an error message.
\<close>

definition handshake_suggestion :: "string \<Rightarrow> suggestion option" where
  "handshake_suggestion msg =
     (if str_includes msg ''timeout'' then Some CheckSecurityGroups
      else if str_includes msg ''403'' then Some CheckIamPermissions
      else if str_includes msg ''ENOTFOUND'' then Some CheckDnsVpc
      else None)"

text \<open>The lines of the \<^verbatim>\<open>catch\<close> block of \<^verbatim>\<open>testOpenSearchClient\<close>.\<close>

definition handshake_failed :: "string \<Rightarrow> event list" where
  "handshake_failed msg =
     Log (ClientFailed msg) #
     (case handshake_suggestion msg of
        Some s \<Rightarrow> [Log (Suggest s)]
      | None \<Rightarrow> [])"

text \<open>
  \<^verbatim>\<open>testOpenSearchClient\<close> returns the client on success and \<^verbatim>\<open>null\<close> on failure; the
  second component is that return value. The client is constructed inside the
  \<^verbatim>\<open>try\<close>: when the constructor throws, \<^verbatim>\<open>info\<close> is not called.
\<close>

definition testOpenSearchClient ::
  "env \<Rightarrow> diag_world \<Rightarrow> event list \<times> client_config option" where
  "testOpenSearchClient e w =
     (let opensearchClient = make_client_config e
      in case new_client w opensearchClient of
           Some msg \<Rightarrow> (handshake_failed msg, None)
         | None \<Rightarrow>
             (let startTime = date_now w 0
              in case client_info w opensearchClient of
                   Inr info \<Rightarrow>
                     (let duration = date_now w 1 - startTime
                      in ([ClientInfo opensearchClient,
                           Log (ClientSuccess duration),
                           Log (ShowCluster (cluster_name info)),
                           Log (ShowVersion (version_number info))],
                          Some opensearchClient))
                 | Inl msg \<Rightarrow>
                     (ClientInfo opensearchClient # handshake_failed msg, None)))"

text \<open>
  \<^verbatim>\<open>testIndexExists\<close> constructs its own client, inside its \<^verbatim>\<open>try\<close> as well.
\<close>

definition testIndexExists :: "env \<Rightarrow> diag_world \<Rightarrow> event list" where
  "testIndexExists e w =
     (let opensearchClient = make_client_config e
      in case new_client w opensearchClient of
           Some msg \<Rightarrow> [Log (IndexTestFailed msg)]
         | None \<Rightarrow>
             (let indexName = or_default (OPENSEARCH_INDEX e) ''mydomain''
              in IndicesExists opensearchClient indexName #
                 (case indices_exists w opensearchClient indexName of
                    Inl msg \<Rightarrow> [Log (IndexTestFailed msg)]
                  | Inr True \<Rightarrow>
                      Log (IndexExistsLine indexName) #
                      IndicesStats opensearchClient indexName #
                      (case indices_stats w opensearchClient indexName of
                         Inl msg \<Rightarrow> [Log (IndexTestFailed msg)]
                       | Inr docCount \<Rightarrow> [Log (DocumentCount docCount)])
                  | Inr False \<Rightarrow>
                      [Log (IndexMissing indexName), Log (Suggest CreateIndex)])))"

definition runDiagnostics :: "env \<Rightarrow> diag_world \<Rightarrow> diag_run" where
  "runDiagnostics e w =
     (if \<not> truthy (OPENSEARCH_ENDPOINT e)
      then \<lparr>trace = [Log (Heading HBanner)] @ env_report e @ [Log EndpointRequired],
            late = []\<rparr>
      else
        let endpoint = the (OPENSEARCH_ENDPOINT e);
            parsedUrl = url_parse w endpoint;
            analysis = [Log (Heading HEndpoint),
                        Log (ShowHost (hostname parsedUrl)),
                        Log (ShowPort (effective_port parsedUrl)),
                        Log (ShowProtocol (protocol parsedUrl)),
                        Log (Heading HDns),
                        DnsResolve4 (hostname parsedUrl)]
        in case dns_resolve4 w (hostname parsedUrl) of
             Inl msg \<Rightarrow>
               \<lparr>trace = [Log (Heading HBanner)] @ env_report e @ analysis @
                        [Log (DnsFailed msg)],
                late = []\<rparr>
           | Inr addresses \<Rightarrow>
               (let connectivity = testBasicConnectivity w endpoint
                in \<lparr>trace = [Log (Heading HBanner)] @ env_report e @ analysis @
                            [Log DnsSuccess, Log (ResolvedIPs addresses),
                             Log (Heading HConnectivity)] @
                            trace connectivity @
                            [Log (Heading HClient)] @
                            fst (testOpenSearchClient e w) @
                            [Log (Heading HIndex)] @
                            testIndexExists e w,
                    late = late connectivity\<rparr>))"

subsection \<open>Reading a trace\<close>

text \<open>
  The fault categories of the specification. The handshake cascade prints a suggestion;
  each suggestion stands for one category, and no suggestion for \<open>Unknown\<close>.
\<close>

datatype fault_category =
  Unconfigured | DnsFailure | NetworkUnreachable | TimedOut
| AuthenticationFailure | AuthorizationFailure | ResourceNotFound | Unknown

fun category_of :: "suggestion option \<Rightarrow> fault_category" where
  "category_of (Some CheckSecurityGroups) = TimedOut"
| "category_of (Some CheckIamPermissions) = AuthorizationFailure"
| "category_of (Some CheckDnsVpc) = DnsFailure"
| "category_of (Some CreateIndex) = ResourceNotFound"
| "category_of None = Unknown"

definition classify :: "string \<Rightarrow> fault_category" where
  "classify msg = category_of (handshake_suggestion msg)"

text \<open>Which stages a trace shows to have executed: a stage executes when its probe is called.\<close>

fun is_dns_call :: "event \<Rightarrow> bool" where
  "is_dns_call (DnsResolve4 h) = True"
| "is_dns_call ev = False"

fun is_transport_call :: "event \<Rightarrow> bool" where
  "is_transport_call (HttpRequest s opts) = True"
| "is_transport_call ev = False"

fun is_handshake_call :: "event \<Rightarrow> bool" where
  "is_handshake_call (ClientInfo cfg) = True"
| "is_handshake_call ev = False"

fun is_resource_call :: "event \<Rightarrow> bool" where
  "is_resource_call (IndicesExists cfg name) = True"
| "is_resource_call ev = False"

fun is_facade_call :: "event \<Rightarrow> bool" where
  "is_facade_call (ClientInfo cfg) = True"
| "is_facade_call (IndicesExists cfg name) = True"
| "is_facade_call (IndicesStats cfg name) = True"
| "is_facade_call ev = False"

definition dns_stage_ran :: "event list \<Rightarrow> bool" where
  "dns_stage_ran tr = list_ex is_dns_call tr"

definition transport_stage_ran :: "event list \<Rightarrow> bool" where
  "transport_stage_ran tr = list_ex is_transport_call tr"

definition handshake_stage_ran :: "event list \<Rightarrow> bool" where
  "handshake_stage_ran tr = list_ex is_handshake_call tr"

definition resource_stage_ran :: "event list \<Rightarrow> bool" where
  "resource_stage_ran tr = list_ex is_resource_call tr"

definition facade_invoked :: "event list \<Rightarrow> bool" where
  "facade_invoked tr = list_ex is_facade_call tr"

text \<open>
  The findings of a trace: the console lines that report the outcome of a stage, as the
  stage and whether it succeeded. An absent index is a successful probe.
\<close>

datatype stage = Config | Dns | Transport | Handshake | Resource

fun finding_of :: "event \<Rightarrow> (stage \<times> bool) option" where
  "finding_of (Log EndpointRequired) = Some (Config, False)"
| "finding_of (Log DnsSuccess) = Some (Dns, True)"
| "finding_of (Log (DnsFailed m)) = Some (Dns, False)"
| "finding_of (Log (ConnSuccess st)) = Some (Transport, True)"
| "finding_of (Log ConnTimeout) = Some (Transport, False)"
| "finding_of (Log (ConnFailed m)) = Some (Transport, False)"
| "finding_of (Log (ClientSuccess d)) = Some (Handshake, True)"
| "finding_of (Log (ClientFailed m)) = Some (Handshake, False)"
| "finding_of (Log (IndexExistsLine n)) = Some (Resource, True)"
| "finding_of (Log (IndexMissing n)) = Some (Resource, True)"
| "finding_of (Log (IndexTestFailed m)) = Some (Resource, False)"
| "finding_of ev = None"

definition report :: "event list \<Rightarrow> (stage \<times> bool) list" where
  "report tr = List.map_filter finding_of tr"

text \<open>
  The endpoint is set and its host resolves: the two conditions under which
  \<^verbatim>\<open>runDiagnostics\<close> does not return early.
\<close>

definition dns_ok :: "env \<Rightarrow> diag_world \<Rightarrow> bool" where
  "dns_ok e w =
     (case OPENSEARCH_ENDPOINT e of
        None \<Rightarrow> False
      | Some endpoint \<Rightarrow>
          endpoint \<noteq> [] \<and> \<not> isl (dns_resolve4 w (hostname (url_parse w endpoint))))"

text \<open>
  The events of the request that \<^verbatim>\<open>testBasicConnectivity\<close> issues: the first, and
  those after it.
\<close>

definition transport_result :: "diag_world \<Rightarrow> string \<Rightarrow> request_event" where
  "transport_result w endpoint =
     fst (http_request w (protocol (url_parse w endpoint) = Some ''https:'')
            (connectivity_options (url_parse w endpoint)))"

definition transport_later :: "diag_world \<Rightarrow> string \<Rightarrow> request_event list" where
  "transport_later w endpoint =
     snd (http_request w (protocol (url_parse w endpoint) = Some ''https:'')
            (connectivity_options (url_parse w endpoint)))"

fun is_response :: "request_event \<Rightarrow> bool" where
  "is_response (Response st) = True"
| "is_response ev = False"

text \<open>Can the client be constructed?\<close>

definition client_ok :: "env \<Rightarrow> diag_world \<Rightarrow> bool" where
  "client_ok e w = (new_client w (make_client_config e) = None)"

subsection \<open>Sample runs\<close>

definition sample_env :: "string option \<Rightarrow> string option \<Rightarrow> env" where
  "sample_env endpoint key =
     \<lparr>OPENSEARCH_ENDPOINT = endpoint, AWS_REGION = None,
      AWS_ACCESS_KEY_ID = key, AWS_SECRET_ACCESS_KEY = key,
      OPENSEARCH_INDEX = None, FIREHOSE_DELIVERY_STREAM_NAME = None\<rparr>"

text \<open>
  A world in which the endpoint resolves, the client can be constructed and the index
  exists; the first event of the transport probe and the outcome of the handshake are
  the two arguments. After a timeout the request emits the error of the destroyed
  socket.
\<close>

definition sample_world :: "request_event \<Rightarrow> string + cluster_info \<Rightarrow> diag_world" where
  "sample_world t h =
     \<lparr>url_parse = (\<lambda>u. \<lparr>hostname = Some ''search.example.com'', port = None,
                        protocol = Some ''https:''\<rparr>),
      dns_resolve4 = (\<lambda>h. Inr [''10.0.0.7'']),
      http_request =
        (\<lambda>s opts. (t, if t = Timeout then [ConnError ''socket hang up''] else [])),
      new_client = (\<lambda>cfg. None),
      client_info = (\<lambda>cfg. h),
      indices_exists = (\<lambda>cfg name. Inr True),
      indices_stats = (\<lambda>cfg name. Inr 3),
      date_now = (\<lambda>i. 1000 * int i)\<rparr>"

section \<open>The gateway server\<close>

text \<open>
  \<^verbatim>\<open>src/unnamed/part_000\<close> holds two versions of the server. The model is of the first,
  the one with the \<^verbatim>\<open>/test-connection\<close> route, the index check and the troubleshooting
  objects. The second has none of these; its \<^verbatim>\<open>/send\<close>, \<^verbatim>\<open>/send-pipe-data\<close>,
  \<^verbatim>\<open>/search/all\<close> and \<^verbatim>\<open>/search/pipe-data\<close> handlers are the same.
\<close>

subsection \<open>JavaScript values\<close>

text \<open>
  JSON values, with \<^verbatim>\<open>undefined\<close> for an absent one. Numbers are integers. An object is
  the list of its properties in insertion order.
\<close>

datatype json =
  JUndefined
| JNull
| JBool bool
| JNum int
| JStr string
| JArr "json list"
| JObj "(string \<times> json) list"

fun js_truthy :: "json \<Rightarrow> bool" where
  "js_truthy JUndefined = False"
| "js_truthy JNull = False"
| "js_truthy (JBool b) = b"
| "js_truthy (JNum n) = (n \<noteq> 0)"
| "js_truthy (JStr s) = (s \<noteq> [])"
| "js_truthy (JArr xs) = True"
| "js_truthy (JObj kvs) = True"

fun env_json :: "string option \<Rightarrow> json" where
  "env_json None = JUndefined"
| "env_json (Some s) = JStr s"

text \<open>Decimal digits of a number, as a template literal prints it.\<close>

definition digit_char :: "nat \<Rightarrow> char" where
  "digit_char d = char_of (48 + d)"

fun show_nat :: "nat \<Rightarrow> string" where
  "show_nat n = (if n < 10 then [digit_char n] else show_nat (n div 10) @ [digit_char (n mod 10)])"

definition show_int :: "int \<Rightarrow> string" where
  "show_int i = (if i < 0 then CHR ''-'' # show_nat (nat (- i)) else show_nat (nat i))"

text \<open>
  The own enumerable properties that an object spread \<^verbatim>\<open>{...v}\<close> copies: the properties
  of an object, the indexed elements of an array or string, nothing for any other value.
\<close>

fun own_properties :: "json \<Rightarrow> (string \<times> json) list" where
  "own_properties (JObj kvs) = kvs"
| "own_properties (JArr xs) = zip (map show_nat [0..<length xs]) xs"
| "own_properties (JStr s) = zip (map show_nat [0..<length s]) (map (\<lambda>c. JStr [c]) s)"
| "own_properties v = []"

subsection \<open>parseInt\<close>

text \<open>
  A JavaScript string, where its characters matter, is the list of its UTF-16 code
  units. A query parameter is such a string, or absent.
\<close>

type_synonym js_string = "nat list"

definition code_units :: "string \<Rightarrow> js_string" where
  "code_units s = map of_char s"

text \<open>
  A number that \<^verbatim>\<open>parseInt\<close> or a default yields. \<open>Exact n\<close> is the integer \<open>n\<close>, of
  magnitude at most \<open>2 ^ 53 = 9007199254740992\<close>, which a double holds exactly (\<open>Exact 0\<close> stands for both
  zeros). \<open>Rounded n\<close> stands for the double, or the infinity, to which the implementation
  rounds the integer \<open>n\<close> of magnitude above \<open>2 ^ 53\<close>; which one that is, is not
  modelled. It is not zero.
\<close>

datatype js_number = NaN | Exact int | Rounded int

text \<open>
  \<^verbatim>\<open>parseInt(v)\<close> with no radix: the argument is converted to a string
  (\<^verbatim>\<open>undefined\<close> to \<open>undefined\<close>), leading white space and line terminators are
  skipped, a sign is read, a prefix \<open>0x\<close> or \<open>0X\<close> selects radix 16, and the longest
  run of digits is converted; with no digit the result is \<^verbatim>\<open>NaN\<close>.

  White space is TAB, VT, FF, SP, NBSP, ZWNBSP (\<open>0xFEFF\<close>) and the other space
  separators of Unicode; the line terminators are LF, CR, LS and PS. The digits
  \<open>0\<close> to \<open>9\<close> have the codes 48 to 57, \<open>A\<close> to \<open>F\<close> 65 to 70, \<open>a\<close> to
  \<open>f\<close> 97 to 102; \<open>+\<close> is 43, \<open>-\<close> 45, \<open>x\<close> 120 and \<open>X\<close> 88.
\<close>

fun to_string :: "js_string option \<Rightarrow> js_string" where
  "to_string None = code_units ''undefined''"
| "to_string (Some s) = s"

definition is_white_space :: "nat \<Rightarrow> bool" where
  "is_white_space c =
     (c \<in> set [0x09, 0x0B, 0x0C, 0x20, 0xA0, 0xFEFF, 0x1680, 0x202F, 0x205F, 0x3000,
                0x0A, 0x0D, 0x2028, 0x2029] \<or>
      (0x2000 \<le> c \<and> c \<le> 0x200A))"

definition decimal_digit :: "nat \<Rightarrow> nat option" where
  "decimal_digit c = (if 48 \<le> c \<and> c \<le> 57 then Some (c - 48) else None)"

definition radix_digit :: "nat \<Rightarrow> nat \<Rightarrow> nat option" where
  "radix_digit R c =
     (if R = 16 \<and> 97 \<le> c \<and> c \<le> 102 then Some (c - 87)
      else if R = 16 \<and> 65 \<le> c \<and> c \<le> 70 then Some (c - 55)
      else decimal_digit c)"

definition parseInt :: "js_string option \<Rightarrow> js_number" where
  "parseInt v =
     (let S = dropWhile is_white_space (to_string v);
          negative = (S \<noteq> [] \<and> hd S = 45);
          S1 = (if S \<noteq> [] \<and> (hd S = 43 \<or> hd S = 45) then tl S else S);
          hex = (prefix [48, 120] S1 \<or> prefix [48, 88] S1);
          R = (if hex then 16 else 10);
          S2 = (if hex then drop 2 S1 else S1);
          Z = takeWhile (\<lambda>c. radix_digit R c \<noteq> None) S2
      in if Z = [] then NaN
         else
           let mathInt = foldl (\<lambda>acc c. acc * R + the (radix_digit R c)) 0 Z;
               n = (if negative then - int mathInt else int mathInt)
           in if mathInt \<le> 9007199254740992 then Exact n else Rounded n)"

text \<open>\<^verbatim>\<open>parseInt(v) || d\<close>: \<^verbatim>\<open>NaN\<close> and the zeros are falsy.\<close>

fun or_number :: "js_number \<Rightarrow> int \<Rightarrow> js_number" where
  "or_number NaN d = Exact d"
| "or_number (Exact n) d = (if n = 0 then Exact d else Exact n)"
| "or_number (Rounded n) d = Rounded n"

subsection \<open>What the server talks to\<close>

text \<open>An error raised by a client: its \<^verbatim>\<open>message\<close>, \<^verbatim>\<open>code\<close> and \<^verbatim>\<open>statusCode\<close>.\<close>

record js_error =
  err_message :: string
  err_code :: json
  err_statusCode :: json

datatype search_query = MatchAll | ExistsField string

text \<open>
  The argument of \<^verbatim>\<open>opensearchClient.search\<close>. The pipe-data query has no \<^verbatim>\<open>from\<close>.
  Every query sorts by \<open>@timestamp\<close>, descending.
\<close>

record search_request =
  sr_index :: string
  sr_query :: search_query
  sr_size :: js_number
  sr_from :: "js_number option"
  sr_sort :: "(string \<times> string) list"

record hit =
  hit_id :: json
  hit_source :: json
  hit_score :: json

record search_hits =
  hits_total :: json
  hits_hits :: "hit list"

text \<open>
  The argument of \<^verbatim>\<open>PutRecordCommand\<close>. \<open>put_Data\<close> is the record object; the server
  sends its \<^verbatim>\<open>JSON.stringify\<close> followed by a newline.
\<close>

record put_record =
  put_DeliveryStreamName :: "string option"
  put_Data :: "(string \<times> json) list"

text \<open>
  The search client, the ingestion client and the clock. \<open>gw_exists\<close> yields the
  truthiness of \<^verbatim>\<open>indices.exists(...).body\<close>; \<open>gw_send\<close> yields the \<^verbatim>\<open>RecordId\<close>.
  \<open>gw_date_now i\<close> is the \<open>i\<close>-th reading of \<^verbatim>\<open>Date.now()\<close> in a request and
  \<open>gw_iso_now i\<close> the \<open>i\<close>-th value of \<^verbatim>\<open>new Date().toISOString()\<close>.
\<close>

record gateway_world =
  gw_info :: "js_error + cluster_info"
  gw_exists :: "string \<Rightarrow> js_error + bool"
  gw_search :: "search_request \<Rightarrow> js_error + search_hits"
  gw_send :: "put_record \<Rightarrow> js_error + string"
  gw_date_now :: "nat \<Rightarrow> int"
  gw_iso_now :: "nat \<Rightarrow> string"

datatype gw_call =
  CallInfo
| CallExists string
| CallSearch search_request
| CallSend put_record

record request =
  req_query :: "string \<Rightarrow> js_string option"
  req_body :: json

record response =
  res_status :: nat
  res_body :: "(string \<times> json) list"

subsection \<open>The route handlers\<close>

definition health :: "env \<Rightarrow> gateway_world \<Rightarrow> request \<Rightarrow> gw_call list \<times> response" where
  "health e w req =
     ([], \<lparr>res_status = 200,
           res_body =
             [(''status'', JStr ''healthy''),
              (''message'',
               JStr ''Running on EC2 with VPC OpenSearch access and AWS credentials!''),
              (''timestamp'', JStr (gw_iso_now w 0)),
              (''environment'', JStr ''production''),
              (''opensearchEndpoint'', env_json (OPENSEARCH_ENDPOINT e)),
              (''firehoseStream'', env_json (FIREHOSE_DELIVERY_STREAM_NAME e)),
              (''hasCredentials'',
               JBool (truthy (AWS_ACCESS_KEY_ID e) \<and> truthy (AWS_SECRET_ACCESS_KEY e))),
              (''region'', JStr (or_default (AWS_REGION e) ''us-east-1''))]\<rparr>)"

definition test_connection ::
  "env \<Rightarrow> gateway_world \<Rightarrow> request \<Rightarrow> gw_call list \<times> response" where
  "test_connection e w req =
     (let startTime = gw_date_now w 0
      in case gw_info w of
           Inr info \<Rightarrow>
             (let duration = gw_date_now w 1 - startTime
              in ([CallInfo],
                  \<lparr>res_status = 200,
                   res_body =
                     [(''success'', JBool True),
                      (''message'', JStr ''OpenSearch connection successful!''),
                      (''connectionTime'', JStr (show_int duration @ ''ms'')),
                      (''opensearchVersion'', JStr (version_number info)),
                      (''clusterName'', JStr (cluster_name info)),
                      (''endpoint'', env_json (OPENSEARCH_ENDPOINT e)),
                      (''timestamp'', JStr (gw_iso_now w 0))]\<rparr>))
         | Inl error \<Rightarrow>
             (let duration = gw_date_now w 1 - startTime
              in ([CallInfo],
                  \<lparr>res_status = 500,
                   res_body =
                     [(''success'', JBool False),
                      (''error'', JStr (err_message error)),
                      (''errorCode'', err_code error),
                      (''connectionTime'', JStr (show_int duration @ ''ms'')),
                      (''endpoint'', env_json (OPENSEARCH_ENDPOINT e)),
                      (''troubleshooting'',
                       JObj
                         [(''networkIssue'',
                           JBool (str_includes (err_message error) ''timeout'' \<or>
                                  str_includes (err_message error) ''ENOTFOUND'')),
                          (''authIssue'',
                           JBool (str_includes (err_message error) ''403'' \<or>
                                  str_includes (err_message error) ''Forbidden'')),
                          (''configIssue'',
                           JBool (str_includes (err_message error) ''404'' \<or>
                                  str_includes (err_message error) ''Not Found''))]),
                      (''timestamp'', JStr (gw_iso_now w 0))]\<rparr>)))"

text \<open>
  \<^verbatim>\<open>{...data, timestamp: ..., '@timestamp': ...}\<close>: a property that \<open>data\<close> already has
  keeps its place and gets the new value; otherwise it is added at the end.
\<close>

definition stamped_record :: "gateway_world \<Rightarrow> json \<Rightarrow> (string \<times> json) list" where
  "stamped_record w data =
     AList.update ''@timestamp'' (JStr (gw_iso_now w 1))
       (AList.update ''timestamp'' (JStr (gw_iso_now w 0)) (own_properties data))"

definition send_error :: "gateway_world \<Rightarrow> js_error \<Rightarrow> response" where
  "send_error w error =
     \<lparr>res_status = 500,
      res_body =
        [(''success'', JBool False),
         (''error'', JStr (err_message error)),
         (''timestamp'', JStr (gw_iso_now w 2))]\<rparr>"

definition send :: "env \<Rightarrow> gateway_world \<Rightarrow> request \<Rightarrow> gw_call list \<times> response" where
  "send e w req =
     (let data = req_body req;
          record = stamped_record w data;
          params = \<lparr>put_DeliveryStreamName = FIREHOSE_DELIVERY_STREAM_NAME e,
                    put_Data = record\<rparr>
      in case gw_send w params of
           Inr recordId \<Rightarrow>
             ([CallSend params],
              \<lparr>res_status = 200,
               res_body =
                 [(''success'', JBool True),
                  (''message'', JStr ''Data sent to Firehose successfully''),
                  (''recordId'', JStr recordId),
                  (''data'', data),
                  (''timestamp'', JStr (gw_iso_now w 2))]\<rparr>)
         | Inl error \<Rightarrow> ([CallSend params], send_error w error))"

definition send_pipe_data ::
  "env \<Rightarrow> gateway_world \<Rightarrow> request \<Rightarrow> gw_call list \<times> response" where
  "send_pipe_data e w req =
     (let pipeData =
            (if js_truthy (req_body req) then req_body req else JObj [(''pipe-20'', JNum 112)]);
          record = stamped_record w pipeData;
          params = \<lparr>put_DeliveryStreamName = FIREHOSE_DELIVERY_STREAM_NAME e,
                    put_Data = record\<rparr>
      in case gw_send w params of
           Inr recordId \<Rightarrow>
             ([CallSend params],
              \<lparr>res_status = 200,
               res_body =
                 [(''success'', JBool True),
                  (''message'', JStr ''Pipe data sent to Firehose successfully''),
                  (''recordId'', JStr recordId),
                  (''data'', pipeData),
                  (''timestamp'', JStr (gw_iso_now w 2))]\<rparr>)
         | Inl error \<Rightarrow> ([CallSend params], send_error w error))"

text \<open>
  \<^verbatim>\<open>response.body.hits.total.value || response.body.hits.total\<close>, and the mapping of the
  hits.
\<close>

definition total_of :: "json \<Rightarrow> json" where
  "total_of t =
     (case t of
        JObj kvs \<Rightarrow>
          (case map_of kvs ''value'' of
             Some v \<Rightarrow> if js_truthy v then v else t
           | None \<Rightarrow> t)
      | _ \<Rightarrow> t)"

definition hit_json :: "hit \<Rightarrow> json" where
  "hit_json h = JObj [(''id'', hit_id h), (''source'', hit_source h), (''score'', hit_score h)]"

definition search_results :: "search_hits \<Rightarrow> (string \<times> json) list" where
  "search_results b =
     [(''success'', JBool True),
      (''total'', total_of (hits_total b)),
      (''count'', JNum (int (length (hits_hits b)))),
      (''data'', JArr (map hit_json (hits_hits b)))]"

definition search_error :: "gateway_world \<Rightarrow> js_error \<Rightarrow> response" where
  "search_error w error =
     \<lparr>res_status = 500,
      res_body =
        [(''success'', JBool False),
         (''error'', JStr (err_message error)),
         (''timestamp'', JStr (gw_iso_now w 0))]\<rparr>"

definition timestamp_sort :: "(string \<times> string) list" where
  "timestamp_sort = [(''@timestamp'', ''desc'')]"

definition search_all :: "env \<Rightarrow> gateway_world \<Rightarrow> request \<Rightarrow> gw_call list \<times> response" where
  "search_all e w req =
     (let size = or_number (parseInt (req_query req ''size'')) 10;
          from = or_number (parseInt (req_query req ''from'')) 0;
          query = \<lparr>sr_index = or_default (OPENSEARCH_INDEX e) ''mydomain'',
                   sr_query = MatchAll, sr_size = size, sr_from = Some from,
                   sr_sort = timestamp_sort\<rparr>
      in case gw_search w query of
           Inr b \<Rightarrow>
             ([CallSearch query],
              \<lparr>res_status = 200,
               res_body =
                 search_results b @
                 [(''note'', JStr ''Real data from VPC OpenSearch domain!''),
                  (''timestamp'', JStr (gw_iso_now w 0))]\<rparr>)
         | Inl error \<Rightarrow> ([CallSearch query], search_error w error))"

definition search_pipe_data ::
  "env \<Rightarrow> gateway_world \<Rightarrow> request \<Rightarrow> gw_call list \<times> response" where
  "search_pipe_data e w req =
     (let size = or_number (parseInt (req_query req ''size'')) 10;
          query = \<lparr>sr_index = or_default (OPENSEARCH_INDEX e) ''mydomain'',
                   sr_query = ExistsField ''pipe-20'', sr_size = size, sr_from = None,
                   sr_sort = timestamp_sort\<rparr>
      in case gw_search w query of
           Inr b \<Rightarrow>
             ([CallSearch query],
              \<lparr>res_status = 200,
               res_body =
                 search_results b @
                 [(''note'', JStr ''Real pipe-20 data from OpenSearch!''),
                  (''timestamp'', JStr (gw_iso_now w 0))]\<rparr>)
         | Inl error \<Rightarrow> ([CallSearch query], search_error w error))"

text \<open>The \<^verbatim>\<open>catch\<close> block of the \<^verbatim>\<open>/search/real-opensearch\<close> handler.\<close>

definition real_opensearch_error :: "gateway_world \<Rightarrow> int \<Rightarrow> js_error \<Rightarrow> response" where
  "real_opensearch_error w startTime error =
     (let duration = gw_date_now w 1 - startTime
      in \<lparr>res_status = 500,
          res_body =
            [(''success'', JBool False),
             (''error'', JStr (''Failed to query real OpenSearch: '' @ err_message error)),
             (''errorCode'', err_code error),
             (''statusCode'', err_statusCode error),
             (''queryTime'', JStr (show_int duration @ ''ms'')),
             (''troubleshooting'',
              JObj
                [(''timeoutIssue'',
                  JBool (str_includes (err_message error) ''timeout'' \<or>
                         str_includes (err_message error) ''Request timed out'')),
                 (''networkIssue'',
                  JBool (str_includes (err_message error) ''ENOTFOUND'' \<or>
                         str_includes (err_message error) ''ECONNREFUSED'')),
                 (''authIssue'',
                  JBool (str_includes (err_message error) ''403'' \<or>
                         str_includes (err_message error) ''Forbidden'')),
                 (''indexIssue'',
                  JBool (str_includes (err_message error) ''404'' \<or>
                         str_includes (err_message error) ''index_not_found_exception''))]),
             (''timestamp'', JStr (gw_iso_now w 0))]\<rparr>)"

definition real_opensearch ::
  "env \<Rightarrow> gateway_world \<Rightarrow> request \<Rightarrow> gw_call list \<times> response" where
  "real_opensearch e w req =
     (let startTime = gw_date_now w 0;
          indexName = or_default (OPENSEARCH_INDEX e) ''mydomain'';
          size = or_number (parseInt (req_query req ''size'')) 10;
          from = or_number (parseInt (req_query req ''from'')) 0
      in case gw_exists w indexName of
           Inl error \<Rightarrow> ([CallExists indexName], real_opensearch_error w startTime error)
         | Inr False \<Rightarrow>
             ([CallExists indexName],
              \<lparr>res_status = 404,
               res_body =
                 [(''success'', JBool False),
                  (''error'', JStr (''Index '' @ [CHR 0x27] @ indexName @ [CHR 0x27] @
                                    '' does not exist'')),
                  (''suggestion'',
                   JStr (''Check your OPENSEARCH_INDEX environment variable '' @
                         ''or create the index first'')),
                  (''timestamp'', JStr (gw_iso_now w 0))]\<rparr>)
         | Inr True \<Rightarrow>
             (let query = \<lparr>sr_index = indexName, sr_query = MatchAll, sr_size = size,
                           sr_from = Some from, sr_sort = timestamp_sort\<rparr>
              in case gw_search w query of
                   Inl error \<Rightarrow>
                     ([CallExists indexName, CallSearch query],
                      real_opensearch_error w startTime error)
                 | Inr b \<Rightarrow>
                     (let duration = gw_date_now w 1 - startTime
                      in ([CallExists indexName, CallSearch query],
                          \<lparr>res_status = 200,
                           res_body =
                             search_results b @
                             [(''queryTime'', JStr (show_int duration @ ''ms'')),
                              (''note'',
                               JStr (''Real OpenSearch data successfully '' @
                                     ''retrieved from EC2!'')),
                              (''endpoint'', env_json (OPENSEARCH_ENDPOINT e)),
                              (''index'', JStr indexName),
                              (''timestamp'', JStr (gw_iso_now w 0))]\<rparr>))))"

text \<open>The routes the server registers, and the handler of each.\<close>

datatype route =
  Health | TestConnection | Send | SendPipeData | SearchAll | SearchPipeData
| SearchRealOpensearch

fun handle :: "route \<Rightarrow> env \<Rightarrow> gateway_world \<Rightarrow> request \<Rightarrow> gw_call list \<times> response" where
  "handle Health = health"
| "handle TestConnection = test_connection"
| "handle Send = send"
| "handle SendPipeData = send_pipe_data"
| "handle SearchAll = search_all"
| "handle SearchPipeData = search_pipe_data"
| "handle SearchRealOpensearch = real_opensearch"

subsection \<open>Reading a response\<close>

definition body_field :: "response \<Rightarrow> string \<Rightarrow> json option" where
  "body_field res k = map_of (res_body res) k"

definition troubleshooting_flag :: "response \<Rightarrow> string \<Rightarrow> json option" where
  "troubleshooting_flag res k =
     (case map_of (res_body res) ''troubleshooting'' of
        Some (JObj flags) \<Rightarrow> map_of flags k
      | _ \<Rightarrow> None)"

text \<open>Did this call to a client raise?\<close>

fun call_raised :: "gateway_world \<Rightarrow> gw_call \<Rightarrow> bool" where
  "call_raised w CallInfo = isl (gw_info w)"
| "call_raised w (CallExists name) = isl (gw_exists w name)"
| "call_raised w (CallSearch q) = isl (gw_search w q)"
| "call_raised w (CallSend p) = isl (gw_send w p)"

fun is_search_call :: "gw_call \<Rightarrow> bool" where
  "is_search_call (CallSearch q) = True"
| "is_search_call c = False"

text \<open>The query that the \<^verbatim>\<open>/search/real-opensearch\<close> handler builds.\<close>

definition real_opensearch_query :: "env \<Rightarrow> request \<Rightarrow> search_request" where
  "real_opensearch_query e req =
     \<lparr>sr_index = or_default (OPENSEARCH_INDEX e) ''mydomain'', sr_query = MatchAll,
      sr_size = or_number (parseInt (req_query req ''size'')) 10,
      sr_from = Some (or_number (parseInt (req_query req ''from'')) 0),
      sr_sort = timestamp_sort\<rparr>"

text \<open>\<^verbatim>\<open>req.body || { "pipe-20": 112 }\<close>, the \<open>pipeData\<close> of the pipe-data handler.\<close>

definition pipe_data_of :: "request \<Rightarrow> json" where
  "pipe_data_of req =
     (if js_truthy (req_body req) then req_body req else JObj [(''pipe-20'', JNum 112)])"

subsection \<open>Sample requests\<close>

definition sample_error :: "string \<Rightarrow> js_error" where
  "sample_error msg = \<lparr>err_message = msg, err_code = JUndefined, err_statusCode = JUndefined\<rparr>"

definition sample_hits :: search_hits where
  "sample_hits =
     \<lparr>hits_total = JObj [(''value'', JNum 1), (''relation'', JStr ''eq'')],
      hits_hits = [\<lparr>hit_id = JStr ''a1'', hit_source = JObj [(''pipe-20'', JNum 112)],
                    hit_score = JNull\<rparr>]\<rparr>"

text \<open>
  A world whose clients answer normally, except that the index check has the given
  result.
\<close>

definition sample_gateway :: "js_error + bool \<Rightarrow> gateway_world" where
  "sample_gateway ex =
     \<lparr>gw_info = Inr \<lparr>cluster_name = ''c'', version_number = ''2.11.0''\<rparr>,
      gw_exists = (\<lambda>name. ex),
      gw_search = (\<lambda>q. Inr sample_hits),
      gw_send = (\<lambda>p. Inr ''rec-1''),
      gw_date_now = (\<lambda>i. 1000 + 5 * int i),
      gw_iso_now = (\<lambda>i. ''2024-01-01T00:00:00.000Z'')\<rparr>"

definition sample_request ::
  "js_string option \<Rightarrow> js_string option \<Rightarrow> json \<Rightarrow> request" where
  "sample_request sz fr b =
     \<lparr>req_query = (\<lambda>k. if k = ''size'' then sz else if k = ''from'' then fr else None),
      req_body = b\<rparr>"

text \<open>A world in which the \<^verbatim>\<open>info\<close> call raises an error with the given message.\<close>

definition failing_info :: "string \<Rightarrow> gateway_world" where
  "failing_info msg = (sample_gateway (Inr True))\<lparr>gw_info := Inl (sample_error msg)\<rparr>"

section \<open>Substring search\<close>

lemma str_includes_sublist: "str_includes s sub = sublist sub s"
  by (induction s) (auto simp: sublist_Cons_right)

section \<open>Which stages a run executes\<close>

lemma testBasicConnectivity_trace:
  "trace (testBasicConnectivity w ep) =
     [HttpRequest (protocol (url_parse w ep) = Some ''https:'')
        (connectivity_options (url_parse w ep)),
      Log (handler_line (transport_result w ep))]"
  by (simp add: testBasicConnectivity_def transport_result_def Let_def split: prod.split)

lemma testBasicConnectivity_late:
  "late (testBasicConnectivity w ep) =
     map (\<lambda>ev. Log (handler_line ev)) (transport_later w ep)"
  by (simp add: testBasicConnectivity_def transport_later_def Let_def split: prod.split)

lemma testBasicConnectivity_calls:
  "list_ex is_transport_call (trace (testBasicConnectivity w ep))"
  "\<not> list_ex is_dns_call (trace (testBasicConnectivity w ep))"
  "\<not> list_ex is_handshake_call (trace (testBasicConnectivity w ep))"
  "\<not> list_ex is_resource_call (trace (testBasicConnectivity w ep))"
  "\<not> list_ex is_facade_call (trace (testBasicConnectivity w ep))"
  by (simp_all add: testBasicConnectivity_trace)

lemma handshake_failed_calls:
  "\<not> list_ex is_dns_call (handshake_failed msg)"
  "\<not> list_ex is_transport_call (handshake_failed msg)"
  "\<not> list_ex is_handshake_call (handshake_failed msg)"
  "\<not> list_ex is_resource_call (handshake_failed msg)"
  "\<not> list_ex is_facade_call (handshake_failed msg)"
  by (simp_all add: handshake_failed_def split: option.split)

lemma testOpenSearchClient_calls:
  "list_ex is_handshake_call (fst (testOpenSearchClient e w)) = client_ok e w"
  "\<not> list_ex is_dns_call (fst (testOpenSearchClient e w))"
  "\<not> list_ex is_transport_call (fst (testOpenSearchClient e w))"
  "\<not> list_ex is_resource_call (fst (testOpenSearchClient e w))"
  "list_ex is_facade_call (fst (testOpenSearchClient e w)) = client_ok e w"
  by (simp_all add: testOpenSearchClient_def client_ok_def Let_def handshake_failed_calls
        split: sum.split option.split)

lemma testIndexExists_calls:
  "list_ex is_resource_call (testIndexExists e w) = client_ok e w"
  "\<not> list_ex is_dns_call (testIndexExists e w)"
  "\<not> list_ex is_transport_call (testIndexExists e w)"
  "\<not> list_ex is_handshake_call (testIndexExists e w)"
  "list_ex is_facade_call (testIndexExists e w) = client_ok e w"
  by (simp_all add: testIndexExists_def client_ok_def Let_def
        split: sum.split bool.split option.split)

lemma env_report_calls:
  "\<not> list_ex is_dns_call (env_report e)"
  "\<not> list_ex is_transport_call (env_report e)"
  "\<not> list_ex is_handshake_call (env_report e)"
  "\<not> list_ex is_resource_call (env_report e)"
  "\<not> list_ex is_facade_call (env_report e)"
  by (simp_all add: env_report_def)

lemmas stage_calls =
  testBasicConnectivity_calls testOpenSearchClient_calls testIndexExists_calls env_report_calls

lemma dns_ok_truthy: "dns_ok e w \<Longrightarrow> truthy (OPENSEARCH_ENDPOINT e)"
  by (cases "OPENSEARCH_ENDPOINT e") (simp_all add: dns_ok_def)

lemma dns_stage_ran_iff:
  "dns_stage_ran (trace (runDiagnostics e w)) = truthy (OPENSEARCH_ENDPOINT e)"
  by (simp add: dns_stage_ran_def runDiagnostics_def Let_def stage_calls split: sum.split)

lemma transport_stage_ran_iff:
  "transport_stage_ran (trace (runDiagnostics e w)) = dns_ok e w"
  by (cases "OPENSEARCH_ENDPOINT e";
      cases "dns_resolve4 w (hostname (url_parse w (the (OPENSEARCH_ENDPOINT e))))")
     (simp_all add: transport_stage_ran_def runDiagnostics_def Let_def stage_calls dns_ok_def)

lemma handshake_stage_ran_iff:
  "handshake_stage_ran (trace (runDiagnostics e w)) = (dns_ok e w \<and> client_ok e w)"
  by (cases "OPENSEARCH_ENDPOINT e";
      cases "dns_resolve4 w (hostname (url_parse w (the (OPENSEARCH_ENDPOINT e))))")
     (simp_all add: handshake_stage_ran_def runDiagnostics_def Let_def stage_calls dns_ok_def)

lemma resource_stage_ran_iff:
  "resource_stage_ran (trace (runDiagnostics e w)) = (dns_ok e w \<and> client_ok e w)"
  by (cases "OPENSEARCH_ENDPOINT e";
      cases "dns_resolve4 w (hostname (url_parse w (the (OPENSEARCH_ENDPOINT e))))")
     (simp_all add: resource_stage_ran_def runDiagnostics_def Let_def stage_calls dns_ok_def)

lemma facade_invoked_iff:
  "facade_invoked (trace (runDiagnostics e w)) = (dns_ok e w \<and> client_ok e w)"
  by (cases "OPENSEARCH_ENDPOINT e";
      cases "dns_resolve4 w (hostname (url_parse w (the (OPENSEARCH_ENDPOINT e))))")
     (simp_all add: facade_invoked_def runDiagnostics_def Let_def stage_calls dns_ok_def)

lemmas stage_ran_iff =
  dns_stage_ran_iff transport_stage_ran_iff handshake_stage_ran_iff resource_stage_ran_iff
  facade_invoked_iff

lemma late_runDiagnostics:
  "late (runDiagnostics e w) =
     (if dns_ok e w then late (testBasicConnectivity w (the (OPENSEARCH_ENDPOINT e))) else [])"
  by (cases "OPENSEARCH_ENDPOINT e";
      cases "dns_resolve4 w (hostname (url_parse w (the (OPENSEARCH_ENDPOINT e))))")
     (simp_all add: runDiagnostics_def Let_def dns_ok_def)

section \<open>The findings of a run\<close>

lemma report_append: "report (xs @ ys) = report xs @ report ys"
  by (simp add: report_def List.map_filter_def)

lemma report_Cons:
  "report (x # xs) = (case finding_of x of None \<Rightarrow> report xs | Some f \<Rightarrow> f # report xs)"
  by (simp add: report_def List.map_filter_def split: option.split)

lemma report_Nil: "report [] = []"
  by (simp add: report_def List.map_filter_def)

lemma report_env_report: "report (env_report e) = []"
  by (simp add: env_report_def report_Cons report_Nil)

lemma finding_of_handler_line:
  "finding_of (Log (handler_line ev)) = Some (Transport, is_response ev)"
  by (cases ev) simp_all

lemma report_testBasicConnectivity:
  "report (trace (testBasicConnectivity w ep)) =
     [(Transport, is_response (transport_result w ep))]"
  by (simp add: testBasicConnectivity_trace report_Cons report_Nil finding_of_handler_line)

lemma report_late_lines:
  "report (map (\<lambda>ev. Log (handler_line ev)) evs) = map (\<lambda>ev. (Transport, is_response ev)) evs"
  by (induction evs) (simp_all add: report_Cons report_Nil finding_of_handler_line)

lemma report_handshake_failed: "report (handshake_failed msg) = [(Handshake, False)]"
  by (simp add: handshake_failed_def report_Cons report_Nil split: option.split)

lemma report_testOpenSearchClient:
  "report (fst (testOpenSearchClient e w)) =
     [(Handshake, client_ok e w \<and> \<not> isl (client_info w (make_client_config e)))]"
  by (simp add: testOpenSearchClient_def client_ok_def Let_def report_Cons report_Nil
        report_handshake_failed split: sum.split option.split)

lemma report_testIndexExists:
  "(Handshake, b) \<notin> set (report (testIndexExists e w))"
  "(Transport, b) \<notin> set (report (testIndexExists e w))"
  "(Config, b) \<notin> set (report (testIndexExists e w))"
  "(Dns, b) \<notin> set (report (testIndexExists e w))"
  by (simp_all add: testIndexExists_def Let_def report_Cons report_Nil
           split: sum.split bool.split option.split)

lemma report_runDiagnostics:
  "report (trace (runDiagnostics e w)) =
     (if \<not> truthy (OPENSEARCH_ENDPOINT e) then [(Config, False)]
      else if \<not> dns_ok e w then [(Dns, False)]
      else (Dns, True) #
           report (trace (testBasicConnectivity w (the (OPENSEARCH_ENDPOINT e)))) @
           report (fst (testOpenSearchClient e w)) @ report (testIndexExists e w))"
  by (cases "OPENSEARCH_ENDPOINT e";
      cases "dns_resolve4 w (hostname (url_parse w (the (OPENSEARCH_ENDPOINT e))))")
     (simp_all add: runDiagnostics_def Let_def report_append report_Cons report_Nil
        report_env_report dns_ok_def)

lemmas report_parts =
  report_runDiagnostics report_testBasicConnectivity report_testOpenSearchClient
  report_testIndexExists

text \<open>
  A run that gets past the DNS stage: the lines up to the transport stage, then the
  three probes in the order of the script.
\<close>

lemma runDiagnostics_reached:
  assumes "dns_ok e w"
  shows "\<exists>pre. trace (runDiagnostics e w) =
                 pre @ trace (testBasicConnectivity w (the (OPENSEARCH_ENDPOINT e))) @
                 Log (Heading HClient) # fst (testOpenSearchClient e w) @
                 Log (Heading HIndex) # testIndexExists e w \<and>
               report pre = [(Dns, True)] \<and>
               \<not> list_ex is_transport_call pre \<and> \<not> list_ex is_handshake_call pre \<and>
               \<not> list_ex is_resource_call pre"
proof -
  from assms obtain ep where ep: "OPENSEARCH_ENDPOINT e = Some ep" "ep \<noteq> []"
    and ok: "\<not> isl (dns_resolve4 w (hostname (url_parse w ep)))"
    by (cases "OPENSEARCH_ENDPOINT e") (auto simp: dns_ok_def)
  from ok obtain addresses where
    addresses: "dns_resolve4 w (hostname (url_parse w ep)) = Inr addresses"
    by (cases "dns_resolve4 w (hostname (url_parse w ep))") auto
  let ?pre = "[Log (Heading HBanner)] @ env_report e @
      [Log (Heading HEndpoint), Log (ShowHost (hostname (url_parse w ep))),
       Log (ShowPort (effective_port (url_parse w ep))),
       Log (ShowProtocol (protocol (url_parse w ep))), Log (Heading HDns),
       DnsResolve4 (hostname (url_parse w ep)),
       Log DnsSuccess, Log (ResolvedIPs addresses), Log (Heading HConnectivity)]"
  have "trace (runDiagnostics e w) =
          ?pre @ trace (testBasicConnectivity w (the (OPENSEARCH_ENDPOINT e))) @
          Log (Heading HClient) # fst (testOpenSearchClient e w) @
          Log (Heading HIndex) # testIndexExists e w"
    using ep addresses by (simp add: runDiagnostics_def Let_def)
  moreover have "report ?pre = [(Dns, True)]"
    by (simp add: report_append report_Cons report_Nil report_env_report)
  moreover have "\<not> list_ex is_transport_call ?pre" "\<not> list_ex is_handshake_call ?pre"
    "\<not> list_ex is_resource_call ?pre"
    by (simp_all add: env_report_calls)
  ultimately show ?thesis by blast
qed

lemma runDiagnostics_dns_first:
  assumes "truthy (OPENSEARCH_ENDPOINT e)"
  shows "\<exists>pre post. trace (runDiagnostics e w) =
                      pre @ DnsResolve4 (hostname (url_parse w (the (OPENSEARCH_ENDPOINT e)))) #
                      post \<and>
                    report pre = [] \<and> \<not> list_ex is_dns_call pre"
proof -
  let ?pre = "[Log (Heading HBanner)] @ env_report e @
      [Log (Heading HEndpoint),
       Log (ShowHost (hostname (url_parse w (the (OPENSEARCH_ENDPOINT e))))),
       Log (ShowPort (effective_port (url_parse w (the (OPENSEARCH_ENDPOINT e))))),
       Log (ShowProtocol (protocol (url_parse w (the (OPENSEARCH_ENDPOINT e))))),
       Log (Heading HDns)]"
  have "\<exists>post. trace (runDiagnostics e w) =
          ?pre @ DnsResolve4 (hostname (url_parse w (the (OPENSEARCH_ENDPOINT e)))) # post"
    using assms by (simp add: runDiagnostics_def Let_def split: sum.split)
  moreover have "report ?pre = []"
    by (simp add: report_append report_Cons report_Nil report_env_report)
  moreover have "\<not> list_ex is_dns_call ?pre"
    by (simp add: env_report_calls)
  ultimately show ?thesis by blast
qed

lemma testOpenSearchClient_raised:
  assumes "client_ok e w" "client_info w (make_client_config e) = Inl msg"
  shows "testOpenSearchClient e w =
           (ClientInfo (make_client_config e) # handshake_failed msg, None)"
  using assms by (simp add: testOpenSearchClient_def client_ok_def Let_def)

lemma testOpenSearchClient_called:
  assumes "client_ok e w"
  shows "\<exists>rest. fst (testOpenSearchClient e w) = ClientInfo (make_client_config e) # rest"
  using assms
  by (simp add: testOpenSearchClient_def client_ok_def Let_def split: sum.split)

lemma testIndexExists_called:
  assumes "client_ok e w"
  shows "\<exists>rest. testIndexExists e w =
           IndicesExists (make_client_config e) (or_default (OPENSEARCH_INDEX e) ''mydomain'') #
           rest"
  using assms by (simp add: testIndexExists_def client_ok_def Let_def)

lemma client_construction_throws:
  assumes "new_client w (make_client_config e) = Some msg"
  shows "testOpenSearchClient e w = (handshake_failed msg, None)"
    and "testIndexExists e w = [Log (IndexTestFailed msg)]"
  using assms by (simp_all add: testOpenSearchClient_def testIndexExists_def Let_def)

lemma sample_dns_ok: "dns_ok (sample_env (Some (c # cs)) k) (sample_world t h)"
  by (simp add: dns_ok_def sample_env_def sample_world_def)

lemma sample_client_ok: "client_ok e (sample_world t h)"
  by (simp add: client_ok_def sample_world_def)

lemma sample_transport_result: "transport_result (sample_world t h) ep = t"
  by (simp add: transport_result_def sample_world_def)

lemma sample_transport_later:
  "transport_later (sample_world t h) ep =
     (if t = Timeout then [ConnError ''socket hang up''] else [])"
  by (simp add: transport_later_def sample_world_def)

lemma sample_client_info: "client_info (sample_world t h) cfg = h"
  by (simp add: sample_world_def)

lemma sample_truthy: "truthy (OPENSEARCH_ENDPOINT (sample_env ep k)) = truthy ep"
  by (simp add: sample_env_def)

section \<open>The order of the classification rules\<close>

text \<open>
  C1, in the form that holds of the code. The cascade tries its rules in the fixed order \<open>timeout\<close>,
  \<open>403\<close>, \<open>ENOTFOUND\<close>, and the first match wins. So a message with the DNS marker
  \<open>ENOTFOUND\<close> is classified \<open>DnsFailure\<close> exactly when it contains neither
  \<open>timeout\<close> nor \<open>403\<close> (whether it contains \<open>404\<close> plays no part); a message
  containing \<open>timeout\<close> is \<open>TimedOut\<close> whatever else it contains; and the result is
  \<open>Unknown\<close> exactly when the message contains none of the three markers, so never for
  a message that matches a rule.
\<close>

theorem classify_rule_order:
  "(classify msg = DnsFailure) =
     (sublist ''ENOTFOUND'' msg \<and> \<not> sublist ''timeout'' msg \<and> \<not> sublist ''403'' msg) \<and>
   (sublist ''timeout'' msg \<longrightarrow> classify msg = TimedOut) \<and>
   (sublist ''403'' msg \<and> \<not> sublist ''timeout'' msg \<longrightarrow> classify msg = AuthorizationFailure) \<and>
   (classify msg = Unknown) =
     (\<not> sublist ''timeout'' msg \<and> \<not> sublist ''403'' msg \<and> \<not> sublist ''ENOTFOUND'' msg)"
  by (simp add: classify_def handshake_suggestion_def str_includes_sublist)

theorem classify_rule_order_witness:
  "sublist ''timeout'' ''ENOTFOUND 404 timeout'' \<and>
   classify ''ENOTFOUND 404 timeout'' = TimedOut \<and>
   sublist ''403'' ''403 Forbidden'' \<and> \<not> sublist ''timeout'' ''403 Forbidden'' \<and>
   classify ''403 Forbidden'' = AuthorizationFailure \<and>
   sublist ''ENOTFOUND'' ''ENOTFOUND 404'' \<and> classify ''ENOTFOUND 404'' = DnsFailure"
proof -
  have a: "sublist ''timeout'' ''ENOTFOUND 404 timeout''" by code_simp
  have b: "sublist ''ENOTFOUND'' ''ENOTFOUND 404''" by code_simp
  have c: "\<not> sublist ''timeout'' ''ENOTFOUND 404''" by code_simp
  have d: "\<not> sublist ''403'' ''ENOTFOUND 404''" by code_simp
  have f: "sublist ''403'' ''403 Forbidden''" by code_simp
  have g: "\<not> sublist ''timeout'' ''403 Forbidden''" by code_simp
  from a classify_rule_order [of "''ENOTFOUND 404 timeout''"]
  have "classify ''ENOTFOUND 404 timeout'' = TimedOut" by blast
  moreover from b c d classify_rule_order [of "''ENOTFOUND 404''"]
  have "classify ''ENOTFOUND 404'' = DnsFailure" by blast
  moreover from f g classify_rule_order [of "''403 Forbidden''"]
  have "classify ''403 Forbidden'' = AuthorizationFailure" by blast
  ultimately show ?thesis using a b f g by blast
qed

text \<open>
  C1 as the specification states it does not hold: a message with the DNS marker that also contains \<open>timeout\<close> is
  not classified \<open>DnsFailure\<close>, because the timeout rule is tried first.
\<close>

theorem classify_dns_first_counterexample:
  "str_includes ''getaddrinfo ENOTFOUND timeout.example.com'' ''ENOTFOUND'' \<and>
   classify ''getaddrinfo ENOTFOUND timeout.example.com'' \<noteq> DnsFailure"
  by code_simp

section \<open>Which failures halt a run\<close>

text \<open>
  C2, in the form that holds of the code. A failed handshake does not halt the run. In
  every run that gets past the DNS stage, the trace ends with the handshake heading, the
  events of \<^verbatim>\<open>testOpenSearchClient\<close>, the index heading and the events of
  \<^verbatim>\<open>testIndexExists\<close>, in this order, with no handshake or resource call before them.
  When the \<^verbatim>\<open>info\<close> call raises, the handshake logs the failure and returns
  \<^verbatim>\<open>null\<close>, and \<^verbatim>\<open>testIndexExists\<close> starts with the call of the existence check. When
  the client cannot be constructed, the handshake logs that failure without calling
  \<^verbatim>\<open>info\<close> and the index test logs it without calling the existence check. So the
  existence check is called exactly when the endpoint is set, its host resolves and the
  client can be constructed; the outcome of the \<^verbatim>\<open>info\<close> call plays no part.
\<close>

theorem handshake_failure_not_blocking:
  "(dns_ok e w \<longrightarrow>
      (\<exists>pre. trace (runDiagnostics e w) =
               pre @ Log (Heading HClient) # fst (testOpenSearchClient e w) @
               Log (Heading HIndex) # testIndexExists e w \<and>
             \<not> list_ex is_handshake_call pre \<and> \<not> list_ex is_resource_call pre)) \<and>
   (client_ok e w \<and> client_info w (make_client_config e) = Inl msg \<longrightarrow>
      testOpenSearchClient e w =
        (ClientInfo (make_client_config e) # handshake_failed msg, None) \<and>
      report (fst (testOpenSearchClient e w)) = [(Handshake, False)] \<and>
      (\<exists>rest. testIndexExists e w =
               IndicesExists (make_client_config e)
                 (or_default (OPENSEARCH_INDEX e) ''mydomain'') # rest)) \<and>
   (new_client w (make_client_config e) = Some msg \<longrightarrow>
      testOpenSearchClient e w = (handshake_failed msg, None) \<and>
      testIndexExists e w = [Log (IndexTestFailed msg)]) \<and>
   resource_stage_ran (trace (runDiagnostics e w)) = (dns_ok e w \<and> client_ok e w)"
proof -
  have a: "dns_ok e w \<longrightarrow>
      (\<exists>pre. trace (runDiagnostics e w) =
               pre @ Log (Heading HClient) # fst (testOpenSearchClient e w) @
               Log (Heading HIndex) # testIndexExists e w \<and>
             \<not> list_ex is_handshake_call pre \<and> \<not> list_ex is_resource_call pre)"
  proof
    assume "dns_ok e w"
    from runDiagnostics_reached [OF this] obtain pre where
      pre: "trace (runDiagnostics e w) =
              pre @ trace (testBasicConnectivity w (the (OPENSEARCH_ENDPOINT e))) @
              Log (Heading HClient) # fst (testOpenSearchClient e w) @
              Log (Heading HIndex) # testIndexExists e w"
        "\<not> list_ex is_handshake_call pre" "\<not> list_ex is_resource_call pre"
      by blast
    let ?pre = "pre @ trace (testBasicConnectivity w (the (OPENSEARCH_ENDPOINT e)))"
    have "trace (runDiagnostics e w) =
            ?pre @ Log (Heading HClient) # fst (testOpenSearchClient e w) @
            Log (Heading HIndex) # testIndexExists e w"
      using pre(1) by simp
    moreover have "\<not> list_ex is_handshake_call ?pre" "\<not> list_ex is_resource_call ?pre"
      using pre(2,3) by (simp_all add: testBasicConnectivity_calls)
    ultimately show "\<exists>pre. trace (runDiagnostics e w) =
               pre @ Log (Heading HClient) # fst (testOpenSearchClient e w) @
               Log (Heading HIndex) # testIndexExists e w \<and>
             \<not> list_ex is_handshake_call pre \<and> \<not> list_ex is_resource_call pre"
      by blast
  qed
  have b: "client_ok e w \<and> client_info w (make_client_config e) = Inl msg \<longrightarrow>
      testOpenSearchClient e w =
        (ClientInfo (make_client_config e) # handshake_failed msg, None) \<and>
      report (fst (testOpenSearchClient e w)) = [(Handshake, False)] \<and>
      (\<exists>rest. testIndexExists e w =
               IndicesExists (make_client_config e)
                 (or_default (OPENSEARCH_INDEX e) ''mydomain'') # rest)"
  proof
    assume h: "client_ok e w \<and> client_info w (make_client_config e) = Inl msg"
    then have "testOpenSearchClient e w =
        (ClientInfo (make_client_config e) # handshake_failed msg, None)"
      by (simp add: testOpenSearchClient_raised)
    moreover from h have "report (fst (testOpenSearchClient e w)) = [(Handshake, False)]"
      by (simp add: report_testOpenSearchClient)
    moreover from h have "\<exists>rest. testIndexExists e w =
               IndicesExists (make_client_config e)
                 (or_default (OPENSEARCH_INDEX e) ''mydomain'') # rest"
      by (simp add: testIndexExists_called)
    ultimately show "testOpenSearchClient e w =
        (ClientInfo (make_client_config e) # handshake_failed msg, None) \<and>
      report (fst (testOpenSearchClient e w)) = [(Handshake, False)] \<and>
      (\<exists>rest. testIndexExists e w =
               IndicesExists (make_client_config e)
                 (or_default (OPENSEARCH_INDEX e) ''mydomain'') # rest)"
      by (intro conjI)
  qed
  have c: "new_client w (make_client_config e) = Some msg \<longrightarrow>
      testOpenSearchClient e w = (handshake_failed msg, None) \<and>
      testIndexExists e w = [Log (IndexTestFailed msg)]"
    using client_construction_throws [of w e msg] by simp
  have d: "resource_stage_ran (trace (runDiagnostics e w)) = (dns_ok e w \<and> client_ok e w)"
    by (rule resource_stage_ran_iff)
  from a b c d show ?thesis by (intro conjI)
qed

theorem handshake_failure_not_blocking_witness:
  "dns_ok (sample_env (Some ''https://search.example.com'') (Some ''AKIAEXAMPLE''))
     (sample_world (Response 200) (Inl ''403 Forbidden'')) \<and>
   client_ok (sample_env (Some ''https://search.example.com'') (Some ''AKIAEXAMPLE''))
     (sample_world (Response 200) (Inl ''403 Forbidden'')) \<and>
   client_info (sample_world (Response 200) (Inl ''403 Forbidden''))
     (make_client_config (sample_env (Some ''https://search.example.com'') (Some ''AKIAEXAMPLE''))) =
     Inl ''403 Forbidden'' \<and>
   report (fst (testOpenSearchClient
     (sample_env (Some ''https://search.example.com'') (Some ''AKIAEXAMPLE''))
     (sample_world (Response 200) (Inl ''403 Forbidden'')))) = [(Handshake, False)] \<and>
   resource_stage_ran (trace (runDiagnostics
     (sample_env (Some ''https://search.example.com'') (Some ''AKIAEXAMPLE''))
     (sample_world (Response 200) (Inl ''403 Forbidden''))))"
proof -
  let ?e = "sample_env (Some ''https://search.example.com'') (Some ''AKIAEXAMPLE'')"
  let ?w = "sample_world (Response 200) (Inl ''403 Forbidden'')"
  have a: "dns_ok ?e ?w" by (rule sample_dns_ok)
  have b: "client_ok ?e ?w" by (rule sample_client_ok)
  have c: "client_info ?w (make_client_config ?e) = Inl ''403 Forbidden''"
    by (rule sample_client_info)
  note t = handshake_failure_not_blocking [of ?e ?w "''403 Forbidden''"]
  have d: "report (fst (testOpenSearchClient ?e ?w)) = [(Handshake, False)]"
    using t [THEN conjunct2, THEN conjunct1, THEN mp, OF conjI, OF b c,
             THEN conjunct2, THEN conjunct1] .
  have f: "resource_stage_ran (trace (runDiagnostics ?e ?w))"
    using t [THEN conjunct2, THEN conjunct2, THEN conjunct2] a b by (simp only:)
  from a b c d f show ?thesis by (intro conjI)
qed

text \<open>
  C2 as the specification states it does not hold: the \<^verbatim>\<open>info\<close> call raises, and the
  existence check is still called.
\<close>

theorem handshake_blocking_counterexample:
  "client_info (sample_world (Response 200)
       (Inl ''The security token included in the request is invalid''))
     (make_client_config (sample_env (Some ''https://search.example.com'') (Some ''AKIAEXAMPLE''))) =
     Inl ''The security token included in the request is invalid'' \<and>
   handshake_stage_ran (trace (runDiagnostics
     (sample_env (Some ''https://search.example.com'') (Some ''AKIAEXAMPLE''))
     (sample_world (Response 200)
       (Inl ''The security token included in the request is invalid'')))) \<and>
   resource_stage_ran (trace (runDiagnostics
     (sample_env (Some ''https://search.example.com'') (Some ''AKIAEXAMPLE''))
     (sample_world (Response 200)
       (Inl ''The security token included in the request is invalid''))))"
  by (simp add: stage_ran_iff sample_dns_ok sample_client_ok sample_client_info)

text \<open>
  C3, in the form that holds of the code. A transport timeout or connection failure does
  not halt the run. In every run that gets past the DNS stage, the trace is: the lines up
  to the transport stage, whose only finding is the DNS success and which hold no call of
  a later stage; then the events of \<^verbatim>\<open>testBasicConnectivity\<close>, the handshake heading,
  the events of \<^verbatim>\<open>testOpenSearchClient\<close>, the index heading and the events of
  \<^verbatim>\<open>testIndexExists\<close>, in this order, whatever the transport request emits. When the
  first event of the request is not a response, the transport finding is a failure. The
  handshake and the index test start with the \<^verbatim>\<open>info\<close> call and the existence check
  when the client can be constructed. A run that does not get past the DNS stage makes
  no transport, handshake or resource call, and the DNS stage executes exactly when the
  endpoint is set.
\<close>

theorem transport_failure_not_blocking:
  "(dns_ok e w \<longrightarrow>
      (\<exists>pre. trace (runDiagnostics e w) =
               pre @ trace (testBasicConnectivity w (the (OPENSEARCH_ENDPOINT e))) @
               Log (Heading HClient) # fst (testOpenSearchClient e w) @
               Log (Heading HIndex) # testIndexExists e w \<and>
             report pre = [(Dns, True)] \<and>
             \<not> list_ex is_transport_call pre \<and> \<not> list_ex is_handshake_call pre \<and>
             \<not> list_ex is_resource_call pre) \<and>
      late (runDiagnostics e w) =
        late (testBasicConnectivity w (the (OPENSEARCH_ENDPOINT e)))) \<and>
   (\<not> is_response (transport_result w ep) \<longrightarrow>
      (\<exists>call. trace (testBasicConnectivity w ep) =
                [call, Log (handler_line (transport_result w ep))] \<and>
              is_transport_call call) \<and>
      report (trace (testBasicConnectivity w ep)) = [(Transport, False)]) \<and>
   (client_ok e w \<longrightarrow>
      (\<exists>rest. fst (testOpenSearchClient e w) = ClientInfo (make_client_config e) # rest) \<and>
      (\<exists>rest. testIndexExists e w =
               IndicesExists (make_client_config e)
                 (or_default (OPENSEARCH_INDEX e) ''mydomain'') # rest)) \<and>
   (\<not> dns_ok e w \<longrightarrow>
      \<not> transport_stage_ran (trace (runDiagnostics e w)) \<and>
      \<not> handshake_stage_ran (trace (runDiagnostics e w)) \<and>
      \<not> resource_stage_ran (trace (runDiagnostics e w)) \<and>
      late (runDiagnostics e w) = []) \<and>
   handshake_stage_ran (trace (runDiagnostics e w)) = (dns_ok e w \<and> client_ok e w) \<and>
   resource_stage_ran (trace (runDiagnostics e w)) = (dns_ok e w \<and> client_ok e w) \<and>
   dns_stage_ran (trace (runDiagnostics e w)) = truthy (OPENSEARCH_ENDPOINT e)"
proof -
  have a: "dns_ok e w \<longrightarrow>
      (\<exists>pre. trace (runDiagnostics e w) =
               pre @ trace (testBasicConnectivity w (the (OPENSEARCH_ENDPOINT e))) @
               Log (Heading HClient) # fst (testOpenSearchClient e w) @
               Log (Heading HIndex) # testIndexExists e w \<and>
             report pre = [(Dns, True)] \<and>
             \<not> list_ex is_transport_call pre \<and> \<not> list_ex is_handshake_call pre \<and>
             \<not> list_ex is_resource_call pre) \<and>
      late (runDiagnostics e w) =
        late (testBasicConnectivity w (the (OPENSEARCH_ENDPOINT e)))"
    using runDiagnostics_reached [of e w] by (simp add: late_runDiagnostics)
  have b: "\<not> is_response (transport_result w ep) \<longrightarrow>
      (\<exists>call. trace (testBasicConnectivity w ep) =
                [call, Log (handler_line (transport_result w ep))] \<and>
              is_transport_call call) \<and>
      report (trace (testBasicConnectivity w ep)) = [(Transport, False)]"
    by (simp add: testBasicConnectivity_trace report_Cons report_Nil finding_of_handler_line)
  have c: "client_ok e w \<longrightarrow>
      (\<exists>rest. fst (testOpenSearchClient e w) = ClientInfo (make_client_config e) # rest) \<and>
      (\<exists>rest. testIndexExists e w =
               IndicesExists (make_client_config e)
                 (or_default (OPENSEARCH_INDEX e) ''mydomain'') # rest)"
    using testOpenSearchClient_called [of e w] testIndexExists_called [of e w] by simp
  have d: "\<not> dns_ok e w \<longrightarrow>
      \<not> transport_stage_ran (trace (runDiagnostics e w)) \<and>
      \<not> handshake_stage_ran (trace (runDiagnostics e w)) \<and>
      \<not> resource_stage_ran (trace (runDiagnostics e w)) \<and>
      late (runDiagnostics e w) = []"
    by (simp add: stage_ran_iff late_runDiagnostics)
  have f: "handshake_stage_ran (trace (runDiagnostics e w)) = (dns_ok e w \<and> client_ok e w)"
    "resource_stage_ran (trace (runDiagnostics e w)) = (dns_ok e w \<and> client_ok e w)"
    "dns_stage_ran (trace (runDiagnostics e w)) = truthy (OPENSEARCH_ENDPOINT e)"
    by (simp_all add: stage_ran_iff)
  from a b c d f show ?thesis by (intro conjI)
qed

theorem transport_failure_not_blocking_witness:
  "dns_ok (sample_env (Some ''https://search.example.com'') (Some ''AKIAEXAMPLE''))
     (sample_world Timeout (Inl ''x'')) \<and>
   client_ok (sample_env (Some ''https://search.example.com'') (Some ''AKIAEXAMPLE''))
     (sample_world Timeout (Inl ''x'')) \<and>
   \<not> is_response (transport_result (sample_world Timeout (Inl ''x''))
     ''https://search.example.com'') \<and>
   report (trace (testBasicConnectivity (sample_world Timeout (Inl ''x''))
     ''https://search.example.com'')) = [(Transport, False)] \<and>
   handshake_stage_ran (trace (runDiagnostics
     (sample_env (Some ''https://search.example.com'') (Some ''AKIAEXAMPLE''))
     (sample_world Timeout (Inl ''x'')))) \<and>
   resource_stage_ran (trace (runDiagnostics
     (sample_env (Some ''https://search.example.com'') (Some ''AKIAEXAMPLE''))
     (sample_world Timeout (Inl ''x'')))) \<and>
   late (runDiagnostics
     (sample_env (Some ''https://search.example.com'') (Some ''AKIAEXAMPLE''))
     (sample_world Timeout (Inl ''x''))) =
   late (testBasicConnectivity (sample_world Timeout (Inl ''x''))
     (the (OPENSEARCH_ENDPOINT
        (sample_env (Some ''https://search.example.com'') (Some ''AKIAEXAMPLE'')))))"
proof -
  let ?e = "sample_env (Some ''https://search.example.com'') (Some ''AKIAEXAMPLE'')"
  let ?w = "sample_world Timeout (Inl ''x'')"
  have a: "dns_ok ?e ?w" by (rule sample_dns_ok)
  have b: "client_ok ?e ?w" by (rule sample_client_ok)
  have c: "\<not> is_response (transport_result ?w ''https://search.example.com'')"
    by (simp add: sample_transport_result)
  note t = transport_failure_not_blocking [of ?e ?w "''https://search.example.com''"]
  have d: "report (trace (testBasicConnectivity ?w ''https://search.example.com'')) =
      [(Transport, False)]"
    using t [THEN conjunct2, THEN conjunct1, THEN mp, OF c, THEN conjunct2] .
  have f: "late (runDiagnostics ?e ?w) =
      late (testBasicConnectivity ?w (the (OPENSEARCH_ENDPOINT ?e)))"
    using t [THEN conjunct1, THEN mp, OF a, THEN conjunct2] .
  have g: "handshake_stage_ran (trace (runDiagnostics ?e ?w))"
    using t [THEN conjunct2, THEN conjunct2, THEN conjunct2, THEN conjunct2, THEN conjunct1]
      a b by (simp only:)
  have h: "resource_stage_ran (trace (runDiagnostics ?e ?w))"
    using t [THEN conjunct2, THEN conjunct2, THEN conjunct2, THEN conjunct2, THEN conjunct2,
             THEN conjunct1] a b by (simp only:)
  from a b c d g h f show ?thesis by (intro conjI)
qed

text \<open>
  C3 as the specification states it does not hold: the transport probe times out, and the
  handshake and resource stages still execute.
\<close>

theorem transport_blocking_counterexample:
  "transport_result (sample_world Timeout (Inr \<lparr>cluster_name = ''c'', version_number = ''2.11.0''\<rparr>))
     ''https://search.example.com'' = Timeout \<and>
   report (trace (runDiagnostics
     (sample_env (Some ''https://search.example.com'') (Some ''AKIAEXAMPLE''))
     (sample_world Timeout (Inr \<lparr>cluster_name = ''c'', version_number = ''2.11.0''\<rparr>)))) =
     [(Dns, True), (Transport, False), (Handshake, True), (Resource, True)] \<and>
   handshake_stage_ran (trace (runDiagnostics
     (sample_env (Some ''https://search.example.com'') (Some ''AKIAEXAMPLE''))
     (sample_world Timeout (Inr \<lparr>cluster_name = ''c'', version_number = ''2.11.0''\<rparr>)))) \<and>
   resource_stage_ran (trace (runDiagnostics
     (sample_env (Some ''https://search.example.com'') (Some ''AKIAEXAMPLE''))
     (sample_world Timeout (Inr \<lparr>cluster_name = ''c'', version_number = ''2.11.0''\<rparr>))))"
proof -
  let ?e = "sample_env (Some ''https://search.example.com'') (Some ''AKIAEXAMPLE'')"
  let ?w = "sample_world Timeout (Inr \<lparr>cluster_name = ''c'', version_number = ''2.11.0''\<rparr>)"
  have "report (testIndexExists ?e ?w) = [(Resource, True)]"
    by (simp add: testIndexExists_def Let_def sample_world_def report_Cons report_Nil)
  then have "report (trace (runDiagnostics ?e ?w)) =
      [(Dns, True), (Transport, False), (Handshake, True), (Resource, True)]"
    by (simp add: report_runDiagnostics report_testBasicConnectivity
          report_testOpenSearchClient sample_dns_ok sample_client_ok sample_truthy
          sample_transport_result sample_client_info)
  then show ?thesis
    by (simp add: stage_ran_iff sample_dns_ok sample_client_ok sample_transport_result)
qed

section \<open>The configuration stage\<close>

text \<open>
  C4, in the form that holds of the code. The configuration stage requires the endpoint
  only; the credentials are reported as set or not set and are not required. In every run in which the endpoint
  is absent (unset or empty) the report has exactly one finding, the failed configuration
  stage, stages 2 to 5 never execute and the search client is never invoked. In every run
  in which the endpoint is present the configuration stage does not fail and the DNS stage
  executes, whatever the credentials.
\<close>

theorem config_stage_checks_endpoint_only:
  "(\<not> truthy (OPENSEARCH_ENDPOINT e) \<longrightarrow>
      report (trace (runDiagnostics e w)) = [(Config, False)] \<and>
      \<not> dns_stage_ran (trace (runDiagnostics e w)) \<and> \<not> transport_stage_ran (trace (runDiagnostics e w)) \<and>
      \<not> handshake_stage_ran (trace (runDiagnostics e w)) \<and> \<not> resource_stage_ran (trace (runDiagnostics e w)) \<and>
      \<not> facade_invoked (trace (runDiagnostics e w)) \<and>
      late (runDiagnostics e w) = []) \<and>
   (truthy (OPENSEARCH_ENDPOINT e) \<longrightarrow>
      dns_stage_ran (trace (runDiagnostics e w)) \<and> (Config, False) \<notin> set (report (trace (runDiagnostics e w))))"
  by (auto simp: report_parts stage_ran_iff late_runDiagnostics dest: dns_ok_truthy)

theorem config_stage_checks_endpoint_only_witness:
  "\<not> truthy (OPENSEARCH_ENDPOINT (sample_env None (Some ''AKIAEXAMPLE''))) \<and>
   report (trace (runDiagnostics (sample_env None (Some ''AKIAEXAMPLE'')) (sample_world Timeout (Inl ''x'')))) =
     [(Config, False)] \<and>
   \<not> facade_invoked (trace (runDiagnostics (sample_env None (Some ''AKIAEXAMPLE'')) (sample_world Timeout (Inl ''x'')))) \<and>
   truthy (OPENSEARCH_ENDPOINT (sample_env (Some ''https://search.example.com'') None)) \<and>
   dns_stage_ran (trace (runDiagnostics (sample_env (Some ''https://search.example.com'') None)
     (sample_world Timeout (Inl ''x''))))"
proof -
  have a: "\<not> truthy (OPENSEARCH_ENDPOINT (sample_env None (Some ''AKIAEXAMPLE'')))"
    by (simp add: sample_truthy)
  have b: "truthy (OPENSEARCH_ENDPOINT (sample_env (Some ''https://search.example.com'') None))"
    by (simp add: sample_truthy)
  from a b show ?thesis
    using config_stage_checks_endpoint_only
        [of "sample_env None (Some ''AKIAEXAMPLE'')" "sample_world Timeout (Inl ''x'')"]
      config_stage_checks_endpoint_only
        [of "sample_env (Some ''https://search.example.com'') None" "sample_world Timeout (Inl ''x'')"]
    by blast
qed

text \<open>
  C4 as the specification states it does not hold: with both credentials absent and the
  endpoint present, the DNS stage executes and the search client is invoked.
\<close>

theorem config_credentials_counterexample:
  "\<not> truthy (AWS_ACCESS_KEY_ID (sample_env (Some ''https://search.example.com'') None)) \<and>
   \<not> truthy (AWS_SECRET_ACCESS_KEY (sample_env (Some ''https://search.example.com'') None)) \<and>
   dns_stage_ran (trace (runDiagnostics (sample_env (Some ''https://search.example.com'') None)
     (sample_world (Response 200) (Inl ''403 Forbidden'')))) \<and>
   facade_invoked (trace (runDiagnostics (sample_env (Some ''https://search.example.com'') None)
     (sample_world (Response 200) (Inl ''403 Forbidden''))))"
  by (simp add: stage_ran_iff sample_dns_ok sample_client_ok sample_truthy)
     (simp add: sample_env_def)

section \<open>The transport stage\<close>

text \<open>
  C5. \<^verbatim>\<open>testBasicConnectivity\<close> issues one request: to the host of the endpoint, to its
  declared port, or to 443 for \<open>https:\<close> and 80 otherwise when it declares none, for
  the path \<open>/\<close> with method GET and a timeout of 10000 ms. Up to the resolution of its
  promise it leaves the request and the line of the first event; afterwards, the line of
  each later event. The line of a response is a success whatever the status code, the
  line of a timeout or of an error is a failure: the finding at the resolution is a
  success exactly when the first event is a response, and a failure exactly when it is a
  timeout or an error; and each later finding is of the same kind as its event.
\<close>

theorem transport_stage_accepts_any_response:
  "trace (testBasicConnectivity w ep) =
     [HttpRequest (protocol (url_parse w ep) = Some ''https:'')
        \<lparr>opt_hostname = hostname (url_parse w ep),
         opt_port =
           (if truthy (port (url_parse w ep)) then PortString (the (port (url_parse w ep)))
            else if protocol (url_parse w ep) = Some ''https:'' then PortNumber 443
            else PortNumber 80),
         opt_path = ''/'', opt_method = ''GET'', opt_timeout = 10000,
         opt_rejectUnauthorized = False\<rparr>,
      Log (case transport_result w ep of
             Response st \<Rightarrow> ConnSuccess st | Timeout \<Rightarrow> ConnTimeout | ConnError m \<Rightarrow> ConnFailed m)] \<and>
   late (testBasicConnectivity w ep) =
     map (\<lambda>ev. Log (case ev of
                     Response st \<Rightarrow> ConnSuccess st | Timeout \<Rightarrow> ConnTimeout
                   | ConnError m \<Rightarrow> ConnFailed m))
       (transport_later w ep) \<and>
   (report (trace (testBasicConnectivity w ep)) = [(Transport, True)]) =
     (\<exists>st. transport_result w ep = Response st) \<and>
   (report (trace (testBasicConnectivity w ep)) = [(Transport, False)]) =
     (transport_result w ep = Timeout \<or> (\<exists>m. transport_result w ep = ConnError m)) \<and>
   report (late (testBasicConnectivity w ep)) =
     map (\<lambda>ev. (Transport, is_response ev)) (transport_later w ep) \<and>
   (is_response ev = (\<exists>st. ev = Response st))"
proof -
  have line: "handler_line x =
      (case x of Response st \<Rightarrow> ConnSuccess st | Timeout \<Rightarrow> ConnTimeout
       | ConnError m \<Rightarrow> ConnFailed m)" for x
    by (cases x) simp_all
  have a: "trace (testBasicConnectivity w ep) =
     [HttpRequest (protocol (url_parse w ep) = Some ''https:'')
        \<lparr>opt_hostname = hostname (url_parse w ep),
         opt_port =
           (if truthy (port (url_parse w ep)) then PortString (the (port (url_parse w ep)))
            else if protocol (url_parse w ep) = Some ''https:'' then PortNumber 443
            else PortNumber 80),
         opt_path = ''/'', opt_method = ''GET'', opt_timeout = 10000,
         opt_rejectUnauthorized = False\<rparr>,
      Log (case transport_result w ep of
             Response st \<Rightarrow> ConnSuccess st | Timeout \<Rightarrow> ConnTimeout | ConnError m \<Rightarrow> ConnFailed m)]"
    by (simp add: testBasicConnectivity_trace connectivity_options_def effective_port_def
          line [symmetric])
  have b: "late (testBasicConnectivity w ep) =
     map (\<lambda>ev. Log (case ev of
                     Response st \<Rightarrow> ConnSuccess st | Timeout \<Rightarrow> ConnTimeout
                   | ConnError m \<Rightarrow> ConnFailed m))
       (transport_later w ep)"
    by (simp add: testBasicConnectivity_late line [symmetric])
  have c: "(report (trace (testBasicConnectivity w ep)) = [(Transport, True)]) =
     (\<exists>st. transport_result w ep = Response st)"
    by (cases "transport_result w ep") (simp_all add: report_testBasicConnectivity)
  have d: "(report (trace (testBasicConnectivity w ep)) = [(Transport, False)]) =
     (transport_result w ep = Timeout \<or> (\<exists>m. transport_result w ep = ConnError m))"
    by (cases "transport_result w ep") (simp_all add: report_testBasicConnectivity)
  have f: "report (late (testBasicConnectivity w ep)) =
     map (\<lambda>ev. (Transport, is_response ev)) (transport_later w ep)"
    by (simp add: testBasicConnectivity_late report_late_lines)
  have g: "is_response ev = (\<exists>st. ev = Response st)"
    by (cases ev) simp_all
  from a b c d f g show ?thesis by (intro conjI)
qed

theorem transport_stage_accepts_any_response_witness:
  "transport_result (sample_world (Response 503) (Inl ''x'')) ''https://search.example.com'' =
     Response 503 \<and>
   report (trace (testBasicConnectivity (sample_world (Response 503) (Inl ''x''))
      ''https://search.example.com'')) = [(Transport, True)] \<and>
   transport_result (sample_world Timeout (Inl ''x'')) ''https://search.example.com'' =
     Timeout \<and>
   report (trace (testBasicConnectivity (sample_world Timeout (Inl ''x''))
      ''https://search.example.com'')) = [(Transport, False)] \<and>
   report (late (testBasicConnectivity (sample_world Timeout (Inl ''x''))
      ''https://search.example.com'')) = [(Transport, False)]"
proof -
  let ?ep = "''https://search.example.com''"
  let ?w = "sample_world (Response 503) (Inl ''x'')"
  let ?v = "sample_world Timeout (Inl ''x'')"
  have a: "transport_result ?w ?ep = Response 503"
    by (rule sample_transport_result)
  then have a': "\<exists>st. transport_result ?w ?ep = Response st" by (rule exI)
  have b: "transport_result ?v ?ep = Timeout"
    by (rule sample_transport_result)
  then have b': "transport_result ?v ?ep = Timeout \<or> (\<exists>m. transport_result ?v ?ep = ConnError m)"
    by (rule disjI1)
  have c: "report (trace (testBasicConnectivity ?w ?ep)) = [(Transport, True)]"
    using transport_stage_accepts_any_response
      [of ?w ?ep Timeout, THEN conjunct2, THEN conjunct2, THEN conjunct1] a'
    by (rule iffD2)
  have d: "report (trace (testBasicConnectivity ?v ?ep)) = [(Transport, False)]"
    using transport_stage_accepts_any_response
      [of ?v ?ep Timeout, THEN conjunct2, THEN conjunct2, THEN conjunct2, THEN conjunct1] b'
    by (rule iffD2)
  have "report (late (testBasicConnectivity ?v ?ep)) =
      map (\<lambda>ev. (Transport, is_response ev)) (transport_later ?v ?ep)"
    using transport_stage_accepts_any_response
      [of ?v ?ep Timeout, THEN conjunct2, THEN conjunct2, THEN conjunct2, THEN conjunct2,
       THEN conjunct1] .
  then have f: "report (late (testBasicConnectivity ?v ?ep)) = [(Transport, False)]"
    by (simp add: sample_transport_later)
  from a c b d f show ?thesis by (intro conjI)
qed

section \<open>The responses of the gateway\<close>

lemma test_connection_raised:
  "gw_info w = Inl err \<Longrightarrow>
   fst (test_connection e w req) = [CallInfo] \<and>
   res_status (snd (test_connection e w req)) = 500 \<and>
   body_field (snd (test_connection e w req)) ''success'' = Some (JBool False) \<and>
   troubleshooting_flag (snd (test_connection e w req)) ''networkIssue'' =
     Some (JBool (sublist ''timeout'' (err_message err) \<or> sublist ''ENOTFOUND'' (err_message err)))"
  by (simp add: test_connection_def Let_def body_field_def troubleshooting_flag_def
        str_includes_sublist)

lemma test_connection_returned:
  "gw_info w = Inr info \<Longrightarrow>
   fst (test_connection e w req) = [CallInfo] \<and>
   res_status (snd (test_connection e w req)) = 200 \<and>
   body_field (snd (test_connection e w req)) ''success'' = Some (JBool True)"
  by (simp add: test_connection_def Let_def body_field_def)

lemma real_opensearch_error_fields:
  "res_status (real_opensearch_error w t err) = 500"
  "body_field (real_opensearch_error w t err) ''success'' = Some (JBool False)"
  "troubleshooting_flag (real_opensearch_error w t err) ''networkIssue'' =
     Some (JBool (sublist ''ENOTFOUND'' (err_message err) \<or>
                  sublist ''ECONNREFUSED'' (err_message err)))"
  "troubleshooting_flag (real_opensearch_error w t err) ''timeoutIssue'' =
     Some (JBool (sublist ''timeout'' (err_message err) \<or>
                  sublist ''Request timed out'' (err_message err)))"
  by (simp_all add: real_opensearch_error_def Let_def body_field_def troubleshooting_flag_def
        str_includes_sublist)

lemma search_error_fields:
  "res_status (search_error w err) = 500"
  "body_field (search_error w err) ''success'' = Some (JBool False)"
  "troubleshooting_flag (search_error w err) k = None"
  by (simp_all add: search_error_def body_field_def troubleshooting_flag_def)

lemma send_error_fields:
  "res_status (send_error w err) = 500"
  "body_field (send_error w err) ''success'' = Some (JBool False)"
  by (simp_all add: send_error_def body_field_def)

text \<open>The four ways the real-opensearch handler ends.\<close>

lemma real_opensearch_cases:
  "(\<exists>err. gw_exists w (or_default (OPENSEARCH_INDEX e) ''mydomain'') = Inl err \<and>
          real_opensearch e w req =
            ([CallExists (or_default (OPENSEARCH_INDEX e) ''mydomain'')],
             real_opensearch_error w (gw_date_now w 0) err)) \<or>
   (gw_exists w (or_default (OPENSEARCH_INDEX e) ''mydomain'') = Inr False \<and>
    fst (real_opensearch e w req) = [CallExists (or_default (OPENSEARCH_INDEX e) ''mydomain'')] \<and>
    res_status (snd (real_opensearch e w req)) = 404 \<and>
    body_field (snd (real_opensearch e w req)) ''success'' = Some (JBool False) \<and>
    (\<exists>s. body_field (snd (real_opensearch e w req)) ''suggestion'' = Some (JStr s)) \<and>
    (\<forall>k. troubleshooting_flag (snd (real_opensearch e w req)) k = None)) \<or>
   (\<exists>err. gw_exists w (or_default (OPENSEARCH_INDEX e) ''mydomain'') = Inr True \<and>
          gw_search w (real_opensearch_query e req) = Inl err \<and>
          real_opensearch e w req =
            ([CallExists (or_default (OPENSEARCH_INDEX e) ''mydomain''),
              CallSearch (real_opensearch_query e req)],
             real_opensearch_error w (gw_date_now w 0) err)) \<or>
   (\<exists>b. gw_exists w (or_default (OPENSEARCH_INDEX e) ''mydomain'') = Inr True \<and>
        gw_search w (real_opensearch_query e req) = Inr b \<and>
        fst (real_opensearch e w req) =
          [CallExists (or_default (OPENSEARCH_INDEX e) ''mydomain''),
           CallSearch (real_opensearch_query e req)] \<and>
        res_status (snd (real_opensearch e w req)) = 200 \<and>
        body_field (snd (real_opensearch e w req)) ''success'' = Some (JBool True))"
proof (cases "gw_exists w (or_default (OPENSEARCH_INDEX e) ''mydomain'')")
  case (Inl err)
  then show ?thesis by (simp add: real_opensearch_def Let_def)
next
  case (Inr ex)
  show ?thesis
  proof (cases ex)
    case False
    with Inr show ?thesis
      by (simp add: real_opensearch_def Let_def body_field_def troubleshooting_flag_def)
  next
    case True
    show ?thesis
    proof (cases "gw_search w (real_opensearch_query e req)")
      case (Inl err)
      with Inr True show ?thesis
        by (simp add: real_opensearch_def Let_def real_opensearch_query_def)
    next
      case (Inr b)
      with \<open>gw_exists w (or_default (OPENSEARCH_INDEX e) ''mydomain'') = Inr ex\<close> True
      show ?thesis
        by (simp add: real_opensearch_def Let_def real_opensearch_query_def body_field_def
              search_results_def)
    qed
  qed
qed


lemma search_all_cases:
  "\<exists>q. fst (search_all e w req) = [CallSearch q] \<and>
       sr_size q = or_number (parseInt (req_query req ''size'')) 10 \<and>
       sr_from q = Some (or_number (parseInt (req_query req ''from'')) 0) \<and>
       (case gw_search w q of
          Inl err \<Rightarrow> snd (search_all e w req) = search_error w err
        | Inr b \<Rightarrow> res_status (snd (search_all e w req)) = 200 \<and>
                  body_field (snd (search_all e w req)) ''success'' = Some (JBool True))"
  by (simp add: search_all_def Let_def body_field_def search_results_def split: sum.split)

lemma search_pipe_data_cases:
  "\<exists>q. fst (search_pipe_data e w req) = [CallSearch q] \<and>
       sr_size q = or_number (parseInt (req_query req ''size'')) 10 \<and>
       sr_from q = None \<and>
       (case gw_search w q of
          Inl err \<Rightarrow> snd (search_pipe_data e w req) = search_error w err
        | Inr b \<Rightarrow> res_status (snd (search_pipe_data e w req)) = 200 \<and>
                  body_field (snd (search_pipe_data e w req)) ''success'' = Some (JBool True))"
  by (simp add: search_pipe_data_def Let_def body_field_def search_results_def split: sum.split)


lemma send_cases:
  "fst (send e w req) =
     [CallSend \<lparr>put_DeliveryStreamName = FIREHOSE_DELIVERY_STREAM_NAME e,
                put_Data = stamped_record w (req_body req)\<rparr>] \<and>
   (case gw_send w \<lparr>put_DeliveryStreamName = FIREHOSE_DELIVERY_STREAM_NAME e,
                     put_Data = stamped_record w (req_body req)\<rparr> of
      Inl err \<Rightarrow> snd (send e w req) = send_error w err
    | Inr b \<Rightarrow> res_status (snd (send e w req)) = 200 \<and>
              body_field (snd (send e w req)) ''success'' = Some (JBool True))"
  by (simp add: send_def Let_def body_field_def split: sum.split)

lemma send_pipe_data_cases:
  "fst (send_pipe_data e w req) =
     [CallSend \<lparr>put_DeliveryStreamName = FIREHOSE_DELIVERY_STREAM_NAME e,
                put_Data = stamped_record w (pipe_data_of req)\<rparr>] \<and>
   (case gw_send w \<lparr>put_DeliveryStreamName = FIREHOSE_DELIVERY_STREAM_NAME e,
                     put_Data = stamped_record w (pipe_data_of req)\<rparr> of
      Inl err \<Rightarrow> snd (send_pipe_data e w req) = send_error w err
    | Inr b \<Rightarrow> res_status (snd (send_pipe_data e w req)) = 200 \<and>
              body_field (snd (send_pipe_data e w req)) ''success'' = Some (JBool True))"
  by (simp add: send_pipe_data_def pipe_data_of_def Let_def body_field_def split: sum.split)

lemma success_flag_test_connection:
  "body_field (snd (test_connection e w req)) ''success'' =
     Some (JBool (res_status (snd (test_connection e w req)) = 200)) \<and>
   (list_ex (call_raised w) (fst (test_connection e w req)) \<longrightarrow>
      res_status (snd (test_connection e w req)) = 500)"
  by (cases "gw_info w") (simp_all add: test_connection_raised test_connection_returned)

lemma success_flag_send:
  "body_field (snd (send e w req)) ''success'' =
     Some (JBool (res_status (snd (send e w req)) = 200)) \<and>
   (list_ex (call_raised w) (fst (send e w req)) \<longrightarrow> res_status (snd (send e w req)) = 500)"
  using send_cases [of e w req]
  by (cases "gw_send w \<lparr>put_DeliveryStreamName = FIREHOSE_DELIVERY_STREAM_NAME e,
                     put_Data = stamped_record w (req_body req)\<rparr>")
     (simp_all add: send_error_fields)

lemma success_flag_send_pipe_data:
  "body_field (snd (send_pipe_data e w req)) ''success'' =
     Some (JBool (res_status (snd (send_pipe_data e w req)) = 200)) \<and>
   (list_ex (call_raised w) (fst (send_pipe_data e w req)) \<longrightarrow>
      res_status (snd (send_pipe_data e w req)) = 500)"
  using send_pipe_data_cases [of e w req]
  by (cases "gw_send w \<lparr>put_DeliveryStreamName = FIREHOSE_DELIVERY_STREAM_NAME e,
                     put_Data = stamped_record w (pipe_data_of req)\<rparr>")
     (simp_all add: send_error_fields)

lemma success_flag_search_all:
  "body_field (snd (search_all e w req)) ''success'' =
     Some (JBool (res_status (snd (search_all e w req)) = 200)) \<and>
   (list_ex (call_raised w) (fst (search_all e w req)) \<longrightarrow>
      res_status (snd (search_all e w req)) = 500)"
proof -
  from search_all_cases [of e w req] obtain q where
    q: "fst (search_all e w req) = [CallSearch q]"
       "case gw_search w q of
          Inl err \<Rightarrow> snd (search_all e w req) = search_error w err
        | Inr b \<Rightarrow> res_status (snd (search_all e w req)) = 200 \<and>
                  body_field (snd (search_all e w req)) ''success'' = Some (JBool True)"
    by blast
  then show ?thesis
    by (cases "gw_search w q") (simp_all add: search_error_fields)
qed

lemma success_flag_search_pipe_data:
  "body_field (snd (search_pipe_data e w req)) ''success'' =
     Some (JBool (res_status (snd (search_pipe_data e w req)) = 200)) \<and>
   (list_ex (call_raised w) (fst (search_pipe_data e w req)) \<longrightarrow>
      res_status (snd (search_pipe_data e w req)) = 500)"
proof -
  from search_pipe_data_cases [of e w req] obtain q where
    q: "fst (search_pipe_data e w req) = [CallSearch q]"
       "case gw_search w q of
          Inl err \<Rightarrow> snd (search_pipe_data e w req) = search_error w err
        | Inr b \<Rightarrow> res_status (snd (search_pipe_data e w req)) = 200 \<and>
                  body_field (snd (search_pipe_data e w req)) ''success'' = Some (JBool True)"
    by blast
  then show ?thesis
    by (cases "gw_search w q") (simp_all add: search_error_fields)
qed

lemma success_flag_real_opensearch:
  "body_field (snd (real_opensearch e w req)) ''success'' =
     Some (JBool (res_status (snd (real_opensearch e w req)) = 200)) \<and>
   (list_ex (call_raised w) (fst (real_opensearch e w req)) \<longrightarrow>
      res_status (snd (real_opensearch e w req)) = 500)"
  using real_opensearch_cases [of w e req]
  by (elim disjE exE conjE) (simp_all add: real_opensearch_error_fields)

text \<open>
  C7, in the form that holds of the code. Every handler returns a response, also when a
  client call raises. On every route other than \<open>/health\<close> the body has a \<open>success\<close>
  field that is a boolean, true exactly when the status is 200 and false on the error
  paths (status 404 or 500); a raised client error always gives status 500. The
  \<open>/health\<close> response has status 200 and a \<open>status\<close> field \<open>healthy\<close>, and no
  \<open>success\<close> field.
\<close>

theorem success_flag_on_every_route_but_health:
  "(r \<noteq> Health \<longrightarrow>
      body_field (snd (handle r e w req)) ''success'' =
        Some (JBool (res_status (snd (handle r e w req)) = 200)) \<and>
      (list_ex (call_raised w) (fst (handle r e w req)) \<longrightarrow>
         res_status (snd (handle r e w req)) = 500)) \<and>
   body_field (snd (handle Health e w req)) ''success'' = None \<and>
   body_field (snd (handle Health e w req)) ''status'' = Some (JStr ''healthy'') \<and>
   res_status (snd (handle Health e w req)) = 200"
proof -
  have "body_field (snd (handle Health e w req)) ''success'' = None \<and>
   body_field (snd (handle Health e w req)) ''status'' = Some (JStr ''healthy'') \<and>
   res_status (snd (handle Health e w req)) = 200"
    by (simp add: health_def body_field_def)
  moreover have "r \<noteq> Health \<longrightarrow>
      body_field (snd (handle r e w req)) ''success'' =
        Some (JBool (res_status (snd (handle r e w req)) = 200)) \<and>
      (list_ex (call_raised w) (fst (handle r e w req)) \<longrightarrow>
         res_status (snd (handle r e w req)) = 500)"
    by (cases r)
       (simp_all add: success_flag_test_connection success_flag_send success_flag_send_pipe_data
          success_flag_search_all success_flag_search_pipe_data success_flag_real_opensearch)
  ultimately show ?thesis by blast
qed

theorem success_flag_on_every_route_but_health_witness:
  "Send \<noteq> Health \<and>
   list_ex (call_raised ((sample_gateway (Inr True))\<lparr>gw_send := \<lambda>p. Inl (sample_error ''boom'')\<rparr>))
     (fst (handle Send (sample_env None None)
        ((sample_gateway (Inr True))\<lparr>gw_send := \<lambda>p. Inl (sample_error ''boom'')\<rparr>)
        (sample_request None None (JObj [])))) \<and>
   res_status (snd (handle Send (sample_env None None)
        ((sample_gateway (Inr True))\<lparr>gw_send := \<lambda>p. Inl (sample_error ''boom'')\<rparr>)
        (sample_request None None (JObj [])))) = 500 \<and>
   body_field (snd (handle Send (sample_env None None)
        ((sample_gateway (Inr True))\<lparr>gw_send := \<lambda>p. Inl (sample_error ''boom'')\<rparr>)
        (sample_request None None (JObj [])))) ''success'' = Some (JBool False)"
proof -
  let ?w = "(sample_gateway (Inr True))\<lparr>gw_send := \<lambda>p. Inl (sample_error ''boom'')\<rparr>"
  let ?r = "handle Send (sample_env None None) ?w (sample_request None None (JObj []))"
  have a: "Send \<noteq> Health" by simp
  have b: "list_ex (call_raised ?w) (fst ?r)"
    by (simp add: send_def Let_def)
  note t = success_flag_on_every_route_but_health
    [of Send "sample_env None None" ?w "sample_request None None (JObj [])",
     THEN conjunct1, THEN mp, OF a]
  have c: "res_status (snd ?r) = 500"
    using t [THEN conjunct2, THEN mp, OF b] .
  have "body_field (snd ?r) ''success'' = Some (JBool (res_status (snd ?r) = 200))"
    using t [THEN conjunct1] .
  with c have d: "body_field (snd ?r) ''success'' = Some (JBool False)"
    by simp
  from a b c d show ?thesis by (intro conjI)
qed

text \<open>
  C7 as the specification states it does not hold: the body of the \<open>/health\<close> response
  has no \<open>success\<close> field.
\<close>

theorem health_has_no_success_flag_counterexample:
  "body_field (snd (handle Health (sample_env None None) (sample_gateway (Inr True))
      (sample_request None None JUndefined))) ''success'' = None"
  by (simp add: health_def body_field_def)

section \<open>The record sent to the stream\<close>

lemma stamped_record_lookup:
  "map_of (stamped_record w data) =
     (map_of (own_properties data))(''timestamp'' \<mapsto> JStr (gw_iso_now w 0),
                                     ''@timestamp'' \<mapsto> JStr (gw_iso_now w 1))"
  by (simp add: stamped_record_def update_conv')

text \<open>
  C10. \<open>/send\<close> and \<open>/send-pipe-data\<close> make one call to the stream, with the stamped
  record of the request body (for \<open>/send-pipe-data\<close>, of the default object when the
  body is falsy). In the stamped record \<open>timestamp\<close> and \<open>@timestamp\<close> hold the
  server's clock readings, whatever the body held under those names, and every other
  property is exactly the body's.
\<close>

theorem ingested_record_is_stamped:
  "fst (handle Send e w req) =
     [CallSend \<lparr>put_DeliveryStreamName = FIREHOSE_DELIVERY_STREAM_NAME e,
                put_Data = stamped_record w (req_body req)\<rparr>] \<and>
   fst (handle SendPipeData e w req) =
     [CallSend \<lparr>put_DeliveryStreamName = FIREHOSE_DELIVERY_STREAM_NAME e,
                put_Data = stamped_record w (pipe_data_of req)\<rparr>] \<and>
   (js_truthy (req_body req) \<longrightarrow> pipe_data_of req = req_body req) \<and>
   map_of (stamped_record w data) ''timestamp'' = Some (JStr (gw_iso_now w 0)) \<and>
   map_of (stamped_record w data) ''@timestamp'' = Some (JStr (gw_iso_now w 1)) \<and>
   (k \<noteq> ''timestamp'' \<and> k \<noteq> ''@timestamp'' \<longrightarrow>
      map_of (stamped_record w data) k = map_of (own_properties data) k)"
  using send_cases [of e w req] send_pipe_data_cases [of e w req]
  by (simp add: stamped_record_lookup pipe_data_of_def)

theorem ingested_record_is_stamped_witness:
  "js_truthy (req_body (sample_request None None
      (JObj [(''timestamp'', JStr ''mine''), (''pipe-20'', JNum 7)]))) \<and>
   ''pipe-20'' \<noteq> ''timestamp'' \<and> ''pipe-20'' \<noteq> ''@timestamp'' \<and>
   map_of (stamped_record (sample_gateway (Inr True))
      (JObj [(''timestamp'', JStr ''mine''), (''pipe-20'', JNum 7)])) ''pipe-20'' = Some (JNum 7) \<and>
   map_of (stamped_record (sample_gateway (Inr True))
      (JObj [(''timestamp'', JStr ''mine''), (''pipe-20'', JNum 7)])) ''timestamp'' =
     Some (JStr ''2024-01-01T00:00:00.000Z'') \<and>
   pipe_data_of (sample_request None None
      (JObj [(''timestamp'', JStr ''mine''), (''pipe-20'', JNum 7)])) =
     JObj [(''timestamp'', JStr ''mine''), (''pipe-20'', JNum 7)]"
proof -
  let ?b = "JObj [(''timestamp'', JStr ''mine''), (''pipe-20'', JNum 7)]"
  have a: "js_truthy (req_body (sample_request None None ?b))"
    by (simp add: sample_request_def)
  have b: "''pipe-20'' \<noteq> ''timestamp'' \<and> ''pipe-20'' \<noteq> ''@timestamp''"
    by simp
  note t = ingested_record_is_stamped
    [of "sample_env None None" "sample_gateway (Inr True)" "sample_request None None ?b"
        ?b "''pipe-20''"]
  have c: "pipe_data_of (sample_request None None ?b) = req_body (sample_request None None ?b)"
    using t [THEN conjunct2, THEN conjunct2, THEN conjunct1] a by (rule mp)
  have d: "map_of (stamped_record (sample_gateway (Inr True)) ?b) ''pipe-20'' =
      map_of (own_properties ?b) ''pipe-20''"
    using t [THEN conjunct2, THEN conjunct2, THEN conjunct2, THEN conjunct2, THEN conjunct2] b
    by (rule mp)
  have e: "map_of (stamped_record (sample_gateway (Inr True)) ?b) ''timestamp'' =
      Some (JStr (gw_iso_now (sample_gateway (Inr True)) 0))"
    using t [THEN conjunct2, THEN conjunct2, THEN conjunct2, THEN conjunct1] .
  from a b c d e show ?thesis
    by (simp add: sample_request_def sample_gateway_def)
qed

section \<open>The existence check before the search\<close>

text \<open>
  C8. When the existence check of \<open>/search/real-opensearch\<close> answers false, the only
  client call of the request is that check, no search is issued, and the response has
  status 404, \<open>success\<close> false and a \<open>suggestion\<close>. Whenever a search is issued,
  the existence check answered true and was made before it.
\<close>

theorem search_only_after_index_exists:
  "(gw_exists w (or_default (OPENSEARCH_INDEX e) ''mydomain'') = Inr False \<longrightarrow>
      fst (handle SearchRealOpensearch e w req) =
        [CallExists (or_default (OPENSEARCH_INDEX e) ''mydomain'')] \<and>
      \<not> list_ex is_search_call (fst (handle SearchRealOpensearch e w req)) \<and>
      res_status (snd (handle SearchRealOpensearch e w req)) = 404 \<and>
      body_field (snd (handle SearchRealOpensearch e w req)) ''success'' = Some (JBool False) \<and>
      (\<exists>s. body_field (snd (handle SearchRealOpensearch e w req)) ''suggestion'' = Some (JStr s))) \<and>
   (list_ex is_search_call (fst (handle SearchRealOpensearch e w req)) \<longrightarrow>
      gw_exists w (or_default (OPENSEARCH_INDEX e) ''mydomain'') = Inr True \<and>
      (\<exists>q. fst (handle SearchRealOpensearch e w req) =
             [CallExists (or_default (OPENSEARCH_INDEX e) ''mydomain''), CallSearch q]))"
  using real_opensearch_cases [of w e req]
  by (elim disjE exE conjE) simp_all


theorem search_only_after_index_exists_witness:
  "gw_exists (sample_gateway (Inr False)) (or_default (OPENSEARCH_INDEX (sample_env None None)) ''mydomain'') = Inr False \<and>
   fst (handle SearchRealOpensearch (sample_env None None) (sample_gateway (Inr False))
         (sample_request None None JUndefined)) = [CallExists ''mydomain''] \<and>
   res_status (snd (handle SearchRealOpensearch (sample_env None None) (sample_gateway (Inr False))
         (sample_request None None JUndefined))) = 404 \<and>
   list_ex is_search_call (fst (handle SearchRealOpensearch (sample_env None None)
         (sample_gateway (Inr True)) (sample_request None None JUndefined))) \<and>
   gw_exists (sample_gateway (Inr True)) (or_default (OPENSEARCH_INDEX (sample_env None None)) ''mydomain'') = Inr True"
proof -
  let ?e = "sample_env None None"
  let ?req = "sample_request None None JUndefined"
  have a: "gw_exists (sample_gateway (Inr False)) (or_default (OPENSEARCH_INDEX ?e) ''mydomain'') = Inr False"
    by (simp add: sample_gateway_def)
  have b: "list_ex is_search_call (fst (handle SearchRealOpensearch ?e (sample_gateway (Inr True)) ?req))"
    by (simp add: real_opensearch_def Let_def sample_gateway_def)
  have c: "or_default (OPENSEARCH_INDEX ?e) ''mydomain'' = ''mydomain''"
    by (simp add: sample_env_def)
  note t = search_only_after_index_exists [of "sample_gateway (Inr False)" ?e ?req]
  note u = t [THEN conjunct1, THEN mp, OF a]
  have "fst (handle SearchRealOpensearch ?e (sample_gateway (Inr False)) ?req) =
          [CallExists (or_default (OPENSEARCH_INDEX ?e) ''mydomain'')] \<and>
        res_status (snd (handle SearchRealOpensearch ?e (sample_gateway (Inr False)) ?req)) = 404"
    using u [THEN conjunct1] u [THEN conjunct2, THEN conjunct2, THEN conjunct1] by (rule conjI)
  with c have d: "fst (handle SearchRealOpensearch ?e (sample_gateway (Inr False)) ?req) =
          [CallExists ''mydomain''] \<and>
        res_status (snd (handle SearchRealOpensearch ?e (sample_gateway (Inr False)) ?req)) = 404"
    by (simp only:)
  have "gw_exists (sample_gateway (Inr True)) (or_default (OPENSEARCH_INDEX ?e) ''mydomain'') = Inr True"
    using search_only_after_index_exists [of "sample_gateway (Inr True)" ?e ?req,
        THEN conjunct2, THEN mp, OF b, THEN conjunct1] .
  with a b d show ?thesis by (intro conjI) (erule conjunct1 conjunct2 | assumption)+
qed


section \<open>The troubleshooting flags\<close>

lemma search_all_no_troubleshooting:
  "troubleshooting_flag (snd (search_all e w req)) k = None"
  by (simp add: search_all_def Let_def troubleshooting_flag_def search_results_def
        search_error_def split: sum.split)

lemma search_pipe_data_no_troubleshooting:
  "troubleshooting_flag (snd (search_pipe_data e w req)) k = None"
  by (simp add: search_pipe_data_def Let_def troubleshooting_flag_def search_results_def
        search_error_def split: sum.split)

lemma real_opensearch_500:
  assumes "res_status (snd (real_opensearch e w req)) = 500"
  shows "\<exists>err. (gw_exists w (or_default (OPENSEARCH_INDEX e) ''mydomain'') = Inl err \<or>
               gw_search w (real_opensearch_query e req) = Inl err) \<and>
              snd (real_opensearch e w req) = real_opensearch_error w (gw_date_now w 0) err"
  using real_opensearch_cases [of w e req] assms
  by (elim disjE exE conjE) auto

lemma classify_network:
  "classify msg \<in> {TimedOut, DnsFailure} \<Longrightarrow> sublist ''timeout'' msg \<or> sublist ''ENOTFOUND'' msg"
  "classify msg = DnsFailure \<Longrightarrow> sublist ''ENOTFOUND'' msg"
  "classify msg = TimedOut \<Longrightarrow> sublist ''timeout'' msg"
  by (auto simp: classify_def handshake_suggestion_def str_includes_sublist split: if_splits)

text \<open>
  C6, in the form that holds of the code. When \<open>/test-connection\<close> fails,
  \<open>networkIssue\<close> is true exactly when the message contains \<open>timeout\<close> or
  \<open>ENOTFOUND\<close>, hence whenever the category is \<open>TimedOut\<close> or \<open>DnsFailure\<close>.
  When \<open>/search/real-opensearch\<close> answers 500, a client call raised, and
  \<open>networkIssue\<close> is true exactly when the message contains \<open>ENOTFOUND\<close> or
  \<open>ECONNREFUSED\<close>, while a timeout sets the separate flag \<open>timeoutIssue\<close>. The
  responses of \<open>/search/all\<close> and \<open>/search/pipe-data\<close> have no troubleshooting
  object.
\<close>

theorem network_issue_flag:
  "(gw_info w = Inl err \<longrightarrow>
      troubleshooting_flag (snd (handle TestConnection e w req)) ''networkIssue'' =
        Some (JBool (sublist ''timeout'' (err_message err) \<or>
                     sublist ''ENOTFOUND'' (err_message err)))) \<and>
   (gw_info w = Inl err \<and> classify (err_message err) \<in> {TimedOut, DnsFailure} \<longrightarrow>
      troubleshooting_flag (snd (handle TestConnection e w req)) ''networkIssue'' =
        Some (JBool True)) \<and>
   (res_status (snd (handle SearchRealOpensearch e w req)) = 500 \<longrightarrow>
      (\<exists>err. (gw_exists w (or_default (OPENSEARCH_INDEX e) ''mydomain'') = Inl err \<or>
              gw_search w (real_opensearch_query e req) = Inl err) \<and>
             troubleshooting_flag (snd (handle SearchRealOpensearch e w req)) ''networkIssue'' =
               Some (JBool (sublist ''ENOTFOUND'' (err_message err) \<or>
                            sublist ''ECONNREFUSED'' (err_message err))) \<and>
             troubleshooting_flag (snd (handle SearchRealOpensearch e w req)) ''timeoutIssue'' =
               Some (JBool (sublist ''timeout'' (err_message err) \<or>
                            sublist ''Request timed out'' (err_message err))))) \<and>
   troubleshooting_flag (snd (handle SearchAll e w req)) ''networkIssue'' = None \<and>
   troubleshooting_flag (snd (handle SearchPipeData e w req)) ''networkIssue'' = None"
proof -
  have a: "gw_info w = Inl err \<longrightarrow>
      troubleshooting_flag (snd (handle TestConnection e w req)) ''networkIssue'' =
        Some (JBool (sublist ''timeout'' (err_message err) \<or>
                     sublist ''ENOTFOUND'' (err_message err)))"
    by (simp add: test_connection_raised)
  have b: "gw_info w = Inl err \<and> classify (err_message err) \<in> {TimedOut, DnsFailure} \<longrightarrow>
      troubleshooting_flag (snd (handle TestConnection e w req)) ''networkIssue'' =
        Some (JBool True)"
    using classify_network(1) [of "err_message err"] by (auto simp: test_connection_raised)
  have c: "res_status (snd (handle SearchRealOpensearch e w req)) = 500 \<longrightarrow>
      (\<exists>err. (gw_exists w (or_default (OPENSEARCH_INDEX e) ''mydomain'') = Inl err \<or>
              gw_search w (real_opensearch_query e req) = Inl err) \<and>
             troubleshooting_flag (snd (handle SearchRealOpensearch e w req)) ''networkIssue'' =
               Some (JBool (sublist ''ENOTFOUND'' (err_message err) \<or>
                            sublist ''ECONNREFUSED'' (err_message err))) \<and>
             troubleshooting_flag (snd (handle SearchRealOpensearch e w req)) ''timeoutIssue'' =
               Some (JBool (sublist ''timeout'' (err_message err) \<or>
                            sublist ''Request timed out'' (err_message err))))"
  proof
    assume "res_status (snd (handle SearchRealOpensearch e w req)) = 500"
    then obtain err' where
      "gw_exists w (or_default (OPENSEARCH_INDEX e) ''mydomain'') = Inl err' \<or>
       gw_search w (real_opensearch_query e req) = Inl err'"
      "snd (real_opensearch e w req) = real_opensearch_error w (gw_date_now w 0) err'"
      using real_opensearch_500 [of e w req] by auto
    then show "\<exists>err. (gw_exists w (or_default (OPENSEARCH_INDEX e) ''mydomain'') = Inl err \<or>
              gw_search w (real_opensearch_query e req) = Inl err) \<and>
             troubleshooting_flag (snd (handle SearchRealOpensearch e w req)) ''networkIssue'' =
               Some (JBool (sublist ''ENOTFOUND'' (err_message err) \<or>
                            sublist ''ECONNREFUSED'' (err_message err))) \<and>
             troubleshooting_flag (snd (handle SearchRealOpensearch e w req)) ''timeoutIssue'' =
               Some (JBool (sublist ''timeout'' (err_message err) \<or>
                            sublist ''Request timed out'' (err_message err)))"
      by (intro exI [of _ err']) (simp add: real_opensearch_error_fields)
  qed
  have d: "troubleshooting_flag (snd (handle SearchAll e w req)) ''networkIssue'' = None"
    "troubleshooting_flag (snd (handle SearchPipeData e w req)) ''networkIssue'' = None"
    by (simp_all add: search_all_no_troubleshooting search_pipe_data_no_troubleshooting)
  from a b c d show ?thesis by (intro conjI)
qed


theorem network_issue_flag_witness:
  "gw_info (failing_info ''getaddrinfo ENOTFOUND search.example.com'') =
     Inl (sample_error ''getaddrinfo ENOTFOUND search.example.com'') \<and>
   classify (err_message (sample_error ''getaddrinfo ENOTFOUND search.example.com'')) \<in>
     {TimedOut, DnsFailure} \<and>
   troubleshooting_flag (snd (handle TestConnection (sample_env None None)
       (failing_info ''getaddrinfo ENOTFOUND search.example.com'')
       (sample_request None None JUndefined))) ''networkIssue'' = Some (JBool True)"
proof -
  let ?m = "''getaddrinfo ENOTFOUND search.example.com''"
  have a: "gw_info (failing_info ?m) = Inl (sample_error ?m)"
    by (simp add: failing_info_def)
  have "classify ?m = DnsFailure" by code_simp
  then have b: "classify (err_message (sample_error ?m)) \<in> {TimedOut, DnsFailure}"
    by (simp add: sample_error_def)
  from a b have ab: "gw_info (failing_info ?m) = Inl (sample_error ?m) \<and>
      classify (err_message (sample_error ?m)) \<in> {TimedOut, DnsFailure}"
    by (rule conjI)
  have c: "troubleshooting_flag (snd (handle TestConnection (sample_env None None)
       (failing_info ?m) (sample_request None None JUndefined))) ''networkIssue'' = Some (JBool True)"
    using network_issue_flag [of "failing_info ?m" "sample_error ?m" "sample_env None None"
        "sample_request None None JUndefined", THEN conjunct2, THEN conjunct1, THEN mp, OF ab] .
  from a b c show ?thesis by (intro conjI)
qed

text \<open>
  C6 as the specification states it does not hold, in either direction: on
  \<open>/search/real-opensearch\<close> a timeout message has category \<open>TimedOut\<close> and
  \<open>networkIssue\<close> false, and a connection-refused message has \<open>networkIssue\<close> true
  and a category outside the three.
\<close>

theorem network_issue_category_counterexample:
  "classify ''timeout of 60000ms exceeded'' = TimedOut \<and>
   troubleshooting_flag (snd (handle SearchRealOpensearch (sample_env None None)
       (sample_gateway (Inl (sample_error ''timeout of 60000ms exceeded'')))
       (sample_request None None JUndefined))) ''networkIssue'' = Some (JBool False) \<and>
   classify ''connect ECONNREFUSED 10.0.0.7:443'' = Unknown \<and>
   troubleshooting_flag (snd (handle SearchRealOpensearch (sample_env None None)
       (sample_gateway (Inl (sample_error ''connect ECONNREFUSED 10.0.0.7:443'')))
       (sample_request None None JUndefined))) ''networkIssue'' = Some (JBool True)"
proof -
  have a: "classify ''timeout of 60000ms exceeded'' = TimedOut"
    "classify ''connect ECONNREFUSED 10.0.0.7:443'' = Unknown"
    by code_simp+
  have b: "\<not> sublist ''ENOTFOUND'' ''timeout of 60000ms exceeded''"
    "\<not> sublist ''ECONNREFUSED'' ''timeout of 60000ms exceeded''"
    "sublist ''ECONNREFUSED'' ''connect ECONNREFUSED 10.0.0.7:443''"
    by code_simp+
  have c: "snd (real_opensearch (sample_env None None)
       (sample_gateway (Inl (sample_error m))) (sample_request None None JUndefined)) =
     real_opensearch_error (sample_gateway (Inl (sample_error m)))
       (gw_date_now (sample_gateway (Inl (sample_error m))) 0) (sample_error m)" for m
    by (simp add: real_opensearch_def Let_def sample_gateway_def)
  have d: "err_message (sample_error m) = m" for m
    by (simp add: sample_error_def)
  from a b show ?thesis
    by (simp add: c real_opensearch_error_fields d)
qed

section \<open>parseInt\<close>

lemma radix_digit_10: "radix_digit 10 c = decimal_digit c"
  by (simp add: radix_digit_def)

lemma decimal_digit_zero: "decimal_digit 48 = Some 0"
  by (simp add: decimal_digit_def)

lemmas parseInt_defs =
  parseInt_def Let_def code_units_def is_white_space_def radix_digit_def decimal_digit_def

lemma parseInt_absent: "parseInt None = NaN"
  by (simp add: parseInt_defs)

lemma parseInt_no_digit:
  assumes "\<forall>c \<in> set s. decimal_digit c = None"
  shows "parseInt (Some s) = NaN"
proof -
  define S where "S = dropWhile is_white_space s"
  define S1 where "S1 = (if S \<noteq> [] \<and> (hd S = 43 \<or> hd S = 45) then tl S else S)"
  have "set S \<subseteq> set s"
    unfolding S_def by (rule set_dropWhileD [THEN subsetI])
  moreover have "set S1 \<subseteq> set S"
    unfolding S1_def by (auto dest: list.set_sel(2))
  ultimately have none: "\<forall>c \<in> set S1. decimal_digit c = None"
    using assms by blast
  have nohex: "\<not> prefix [48, 120] S1" "\<not> prefix [48, 88] S1"
  proof -
    have "48 \<notin> set S1"
      using none decimal_digit_zero by force
    then show "\<not> prefix [48, 120] S1" "\<not> prefix [48, 88] S1"
      by (auto simp: prefix_def)
  qed
  have tw: "takeWhile (\<lambda>c. radix_digit 10 c \<noteq> None) S1 = []"
    using none by (cases S1) (simp_all add: radix_digit_10)
  show ?thesis
    apply (simp only: parseInt_def Let_def to_string.simps)
    apply (simp only: S_def [symmetric])
    apply (simp only: S1_def [symmetric])
    using nohex tw apply simp
    done
qed

section \<open>The defaults of the paging parameters\<close>

lemma search_call_params:
  assumes "CallSearch q \<in> set (fst (handle r e w req))"
  shows "sr_size q = or_number (parseInt (req_query req ''size'')) 10 \<and>
         sr_from q = (if r = SearchPipeData then None
                      else Some (or_number (parseInt (req_query req ''from'')) 0))"
proof (cases r)
  case Health
  with assms show ?thesis by (simp add: health_def)
next
  case TestConnection
  with assms show ?thesis by (simp add: test_connection_def Let_def split: sum.splits)
next
  case Send
  with assms show ?thesis using send_cases [of e w req] by simp
next
  case SendPipeData
  with assms show ?thesis using send_pipe_data_cases [of e w req] by simp
next
  case SearchAll
  with assms show ?thesis using search_all_cases [of e w req] by auto
next
  case SearchPipeData
  with assms show ?thesis using search_pipe_data_cases [of e w req] by auto
next
  case SearchRealOpensearch
  with assms show ?thesis
    using real_opensearch_cases [of w e req]
    by (elim disjE exE conjE) (auto simp: real_opensearch_query_def)
qed

lemma or_number_default: "v \<in> {NaN, Exact 0} \<Longrightarrow> or_number v d = Exact d"
  by auto

lemma or_number_keep: "v \<notin> {NaN, Exact 0} \<Longrightarrow> or_number v d = v"
  by (cases v) auto

text \<open>
  C9, in the form that holds of the code. When \<^verbatim>\<open>parseInt\<close> of the \<open>size\<close> parameter
  is \<^verbatim>\<open>NaN\<close> or zero, every search query of the request has size 10, and otherwise the
  number that \<^verbatim>\<open>parseInt\<close> yields. When \<^verbatim>\<open>parseInt\<close> of \<open>from\<close> is \<^verbatim>\<open>NaN\<close> or zero,
  every search query of \<open>/search/all\<close> and \<open>/search/real-opensearch\<close> has from 0,
  and otherwise the number that \<^verbatim>\<open>parseInt\<close> yields; the query of
  \<open>/search/pipe-data\<close> has no from, whatever the parameter. \<^verbatim>\<open>parseInt\<close> is \<^verbatim>\<open>NaN\<close>
  for an absent parameter and for a value without a decimal digit. \<open>/search/all\<close> and
  \<open>/search/pipe-data\<close> always issue their query, \<open>/search/real-opensearch\<close> when the
  index exists.
\<close>

theorem paging_defaults:
  "(parseInt (req_query req ''size'') \<in> {NaN, Exact 0} \<longrightarrow>
      (\<forall>r q. CallSearch q \<in> set (fst (handle r e w req)) \<longrightarrow> sr_size q = Exact 10)) \<and>
   (parseInt (req_query req ''size'') \<notin> {NaN, Exact 0} \<longrightarrow>
      (\<forall>r q. CallSearch q \<in> set (fst (handle r e w req)) \<longrightarrow>
             sr_size q = parseInt (req_query req ''size''))) \<and>
   (parseInt (req_query req ''from'') \<in> {NaN, Exact 0} \<longrightarrow>
      (\<forall>r q. r \<noteq> SearchPipeData \<and> CallSearch q \<in> set (fst (handle r e w req)) \<longrightarrow>
             sr_from q = Some (Exact 0))) \<and>
   (parseInt (req_query req ''from'') \<notin> {NaN, Exact 0} \<longrightarrow>
      (\<forall>r q. r \<noteq> SearchPipeData \<and> CallSearch q \<in> set (fst (handle r e w req)) \<longrightarrow>
             sr_from q = Some (parseInt (req_query req ''from'')))) \<and>
   (\<forall>q. CallSearch q \<in> set (fst (handle SearchPipeData e w req)) \<longrightarrow> sr_from q = None) \<and>
   (\<exists>q. fst (handle SearchAll e w req) = [CallSearch q]) \<and>
   (\<exists>q. fst (handle SearchPipeData e w req) = [CallSearch q]) \<and>
   (gw_exists w (or_default (OPENSEARCH_INDEX e) ''mydomain'') = Inr True \<longrightarrow>
      (\<exists>q. fst (handle SearchRealOpensearch e w req) =
             [CallExists (or_default (OPENSEARCH_INDEX e) ''mydomain''), CallSearch q])) \<and>
   (req_query req k = None \<longrightarrow> parseInt (req_query req k) = NaN) \<and>
   ((\<forall>c \<in> set s. decimal_digit c = None) \<longrightarrow> parseInt (Some s) = NaN)"
proof -
  have a: "parseInt (req_query req ''size'') \<in> {NaN, Exact 0} \<longrightarrow>
      (\<forall>r q. CallSearch q \<in> set (fst (handle r e w req)) \<longrightarrow> sr_size q = Exact 10)"
    using search_call_params [of _ _ e w req] by (auto simp: or_number_default)
  have a': "parseInt (req_query req ''size'') \<notin> {NaN, Exact 0} \<longrightarrow>
      (\<forall>r q. CallSearch q \<in> set (fst (handle r e w req)) \<longrightarrow>
             sr_size q = parseInt (req_query req ''size''))"
    using search_call_params [of _ _ e w req] by (auto simp: or_number_keep)
  have b: "parseInt (req_query req ''from'') \<in> {NaN, Exact 0} \<longrightarrow>
      (\<forall>r q. r \<noteq> SearchPipeData \<and> CallSearch q \<in> set (fst (handle r e w req)) \<longrightarrow>
             sr_from q = Some (Exact 0))"
    using search_call_params [of _ _ e w req] by (auto simp: or_number_default)
  have b': "parseInt (req_query req ''from'') \<notin> {NaN, Exact 0} \<longrightarrow>
      (\<forall>r q. r \<noteq> SearchPipeData \<and> CallSearch q \<in> set (fst (handle r e w req)) \<longrightarrow>
             sr_from q = Some (parseInt (req_query req ''from'')))"
    using search_call_params [of _ _ e w req] by (auto simp: or_number_keep)
  have d: "\<forall>q. CallSearch q \<in> set (fst (handle SearchPipeData e w req)) \<longrightarrow> sr_from q = None"
    using search_call_params [of _ SearchPipeData e w req] by auto
  have f: "\<exists>q. fst (handle SearchAll e w req) = [CallSearch q]"
    using search_all_cases [of e w req] by auto
  have g: "\<exists>q. fst (handle SearchPipeData e w req) = [CallSearch q]"
    using search_pipe_data_cases [of e w req] by auto
  have h: "gw_exists w (or_default (OPENSEARCH_INDEX e) ''mydomain'') = Inr True \<longrightarrow>
      (\<exists>q. fst (handle SearchRealOpensearch e w req) =
             [CallExists (or_default (OPENSEARCH_INDEX e) ''mydomain''), CallSearch q])"
    using real_opensearch_cases [of w e req] by (elim disjE exE conjE) auto
  have i: "req_query req k = None \<longrightarrow> parseInt (req_query req k) = NaN"
    by (simp add: parseInt_absent)
  have j: "(\<forall>c \<in> set s. decimal_digit c = None) \<longrightarrow> parseInt (Some s) = NaN"
    by (simp add: parseInt_no_digit)
  from a a' b b' d f g h i j show ?thesis by (intro conjI)
qed

theorem paging_defaults_witness:
  "parseInt (req_query (sample_request (Some [160, 53]) (Some (code_units ''abc'')) JUndefined)
     ''size'') \<notin> {NaN, Exact 0} \<and>
   parseInt (req_query (sample_request (Some [160, 53]) (Some (code_units ''abc'')) JUndefined)
     ''from'') \<in> {NaN, Exact 0} \<and>
   parseInt (req_query (sample_request (Some (code_units ''0'')) None JUndefined) ''size'') \<in>
     {NaN, Exact 0} \<and>
   CallSearch (real_opensearch_query (sample_env None None)
       (sample_request (Some [160, 53]) (Some (code_units ''abc'')) JUndefined)) \<in>
     set (fst (handle SearchRealOpensearch (sample_env None None) (sample_gateway (Inr True))
       (sample_request (Some [160, 53]) (Some (code_units ''abc'')) JUndefined))) \<and>
   sr_size (real_opensearch_query (sample_env None None)
       (sample_request (Some [160, 53]) (Some (code_units ''abc'')) JUndefined)) = Exact 5 \<and>
   sr_from (real_opensearch_query (sample_env None None)
       (sample_request (Some [160, 53]) (Some (code_units ''abc'')) JUndefined)) =
     Some (Exact 0) \<and>
   sr_size (real_opensearch_query (sample_env None None)
       (sample_request (Some (code_units ''0'')) None JUndefined)) = Exact 10"
proof -
  let ?req = "sample_request (Some [160, 53]) (Some (code_units ''abc'')) JUndefined"
  let ?zreq = "sample_request (Some (code_units ''0'')) None JUndefined"
  let ?e = "sample_env None None"
  let ?w = "sample_gateway (Inr True)"
  let ?q = "real_opensearch_query ?e ?req"
  let ?zq = "real_opensearch_query ?e ?zreq"
  have s5: "parseInt (Some [160, 53]) = Exact 5" by (simp add: parseInt_defs)
  have s0: "parseInt (Some (code_units ''0'')) = Exact 0" by (simp add: parseInt_defs)
  have s1: "parseInt (Some (code_units ''abc'')) = NaN" by (simp add: parseInt_defs)
  have size_eq: "parseInt (req_query ?req ''size'') = Exact 5"
    by (simp add: sample_request_def s5)
  have a: "parseInt (req_query ?req ''size'') \<notin> {NaN, Exact 0}"
    by (simp add: size_eq)
  have b: "parseInt (req_query ?req ''from'') \<in> {NaN, Exact 0}"
    by (simp add: sample_request_def s1)
  have a0: "parseInt (req_query ?zreq ''size'') \<in> {NaN, Exact 0}"
    by (simp add: sample_request_def s0)
  have c: "CallSearch ?q \<in> set (fst (handle SearchRealOpensearch ?e ?w ?req))"
    by (simp add: real_opensearch_def Let_def sample_gateway_def real_opensearch_query_def)
  have c0: "CallSearch ?zq \<in> set (fst (handle SearchRealOpensearch ?e ?w ?zreq))"
    by (simp add: real_opensearch_def Let_def sample_gateway_def real_opensearch_query_def)
  note t = paging_defaults [of ?req ?e ?w]
  note t0 = paging_defaults [of ?zreq ?e ?w]
  have "sr_size ?q = parseInt (req_query ?req ''size'')"
    using t [THEN conjunct2, THEN conjunct1, THEN mp, OF a, THEN spec, THEN spec, THEN mp,
             OF c] .
  then have d: "sr_size ?q = Exact 5"
    by (simp only: size_eq)
  have nc: "SearchRealOpensearch \<noteq> SearchPipeData \<and>
      CallSearch ?q \<in> set (fst (handle SearchRealOpensearch ?e ?w ?req))"
    using c by simp
  have f: "sr_from ?q = Some (Exact 0)"
    using t [THEN conjunct2, THEN conjunct2, THEN conjunct1, THEN mp, OF b, THEN spec,
             THEN spec, THEN mp, OF nc] .
  have g: "sr_size ?zq = Exact 10"
    using t0 [THEN conjunct1, THEN mp, OF a0, THEN spec, THEN spec, THEN mp, OF c0] .
  from a b a0 c d f g show ?thesis by (intro conjI)
qed

text \<open>
  C9 as the specification states it does not hold: \<open>/search/pipe-data\<close> is a search
  route, the request has no \<open>from\<close> parameter, and the query sent has no from instead
  of the default 0.
\<close>

theorem pipe_data_sends_no_from_counterexample:
  "req_query (sample_request None None JUndefined) ''from'' = None \<and>
   fst (handle SearchPipeData (sample_env None None) (sample_gateway (Inr True))
          (sample_request None None JUndefined)) =
     [CallSearch \<lparr>sr_index = ''mydomain'', sr_query = ExistsField ''pipe-20'',
                  sr_size = Exact 10, sr_from = None, sr_sort = timestamp_sort\<rparr>]"
  by (simp add: search_pipe_data_def Let_def sample_request_def sample_gateway_def
        sample_env_def parseInt_absent)

end
